theory Spec2Isabelle
  imports Complex_Main "HOL-Library.Sublist"
begin

section \<open>Python strings\<close>

text \<open>
  A Python \<open>str\<close> is modelled as a \<open>string\<close>, one \<open>char\<close> per code point below 256.
  \<open>isspace\<close> lists the code points of that range that \<open>str.isspace\<close> accepts; they are the
  ones \<open>str.strip()\<close> removes from both ends.
\<close>

definition isspace :: "char \<Rightarrow> bool" where
  "isspace c \<longleftrightarrow> c \<in> set [CHR 0x09, CHR 0x0A, CHR 0x0B, CHR 0x0C, CHR 0x0D,
                         CHR 0x1C, CHR 0x1D, CHR 0x1E, CHR 0x1F, CHR 0x20, CHR 0x85, CHR 0xA0]"

definition strip :: "string \<Rightarrow> string" where
  "strip s = rev (dropWhile isspace (rev (dropWhile isspace s)))"

text \<open>\<open>sep.join(xs)\<close>.\<close>

fun join :: "string \<Rightarrow> string list \<Rightarrow> string" where
  "join sep [] = []"
| "join sep [x] = x"
| "join sep (x # y # ys) = x @ sep @ join sep (y # ys)"

section \<open>Exceptions\<close>

text \<open>
  A raised exception is its class name and the text \<open>str(e)\<close> gives. Every function
  that can raise returns \<open>exn + 'a\<close>, with \<open>Inl\<close> for the exception. The exceptions of
  the model are instances of \<open>Exception\<close>, the ones \<open>except Exception\<close> catches: what the
  service client and the reading of its response raise. \<open>KeyboardInterrupt\<close> and
  \<open>SystemExit\<close> are not modelled.
\<close>

datatype exn = Exn string string

fun str :: "exn \<Rightarrow> string" where
  "str (Exn cls msg) = msg"

section \<open>The completion service\<close>

text \<open>
  The keyword arguments of \<open>self.client.chat.completions.create\<close>. \<open>messages\<close> is the list
  of (role, content) pairs.
\<close>

record request =
  model :: string
  messages :: "(string \<times> string) list"
  temperature :: real
  max_tokens :: nat
  top_p :: nat
  stream :: bool

text \<open>
  A response is the list \<open>response.choices\<close>, each choice reduced to its
  \<open>message.content\<close> (\<open>None\<close> when the service sends no text).
\<close>

type_synonym chat_completion = "string option list"

text \<open>
  The service is outside the program: it is a parameter, and it answers a request knowing
  every request sent before it (so that two equal requests may get different answers).
  It either raises or returns a response. The list of requests sent so far is the state
  that the calls thread.
\<close>

type_synonym client = "request list \<Rightarrow> request \<Rightarrow> exn + chat_completion"

definition create :: "client \<Rightarrow> request \<Rightarrow> request list \<Rightarrow> (exn + chat_completion) \<times> request list" where
  "create client req sent = (client sent req, sent @ [req])"

text \<open>\<open>response.choices[0].message.content.strip()\<close>\<close>

definition message_text :: "chat_completion \<Rightarrow> exn + string" where
  "message_text response =
     (case response of
        [] \<Rightarrow> Inl (Exn ''IndexError'' ''list index out of range'')
      | choice # _ \<Rightarrow>
          (case choice of
             None \<Rightarrow> Inl (Exn ''AttributeError''
                       ([CHR 0x27] @ ''NoneType'' @ [CHR 0x27] @ '' object has no attribute '' @
                        [CHR 0x27] @ ''strip'' @ [CHR 0x27]))
           | Some text \<Rightarrow> Inr (strip text)))"

text \<open>
  The block both generators share:
  \<^verbatim>\<open>
  try:
      response = self.client.chat.completions.create(...)
      return response.choices[0].message.content.strip()
  except Exception as e:
      return <handler e>
  \<close>
\<close>

definition try_completion ::
  "client \<Rightarrow> request \<Rightarrow> (exn \<Rightarrow> string) \<Rightarrow> request list \<Rightarrow> (exn + string) \<times> request list" where
  "try_completion client req handler sent =
     (case create client req sent of
        (Inl e, sent') \<Rightarrow> (Inr (handler e), sent')
      | (Inr response, sent') \<Rightarrow>
          (case message_text response of
             Inl e \<Rightarrow> (Inr (handler e), sent')
           | Inr text \<Rightarrow> (Inr text, sent')))"

section \<open>Cells\<close>

text \<open>The dictionaries \<open>{'type': ..., 'content': ...}\<close> that \<open>extract_cells\<close> builds.\<close>

record cell =
  type :: string
  content :: string

text \<open>
  A cell of an nbformat (version 4) notebook: \<open>metadata\<close> is a dictionary, \<open>outputs\<close> and
  \<open>execution_count\<close> are fields of code cells only (\<open>None\<close> where the cell has no such
  field; an \<open>execution_count\<close> of \<open>Some None\<close> is the JSON null). A notebook is the list
  \<open>nb.cells\<close>. \<open>new_markdown_cell\<close> and \<open>new_code_cell\<close> are nbformat's constructors, given
  by the fields they set from the source text; the cell identifier recent versions of
  nbformat draw at random is left out.
\<close>

record ('v, 'o) notebook_node =
  cell_type :: string
  source :: string
  metadata :: "(string \<times> 'v) list"
  outputs :: "'o list option"
  execution_count :: "int option option"

definition new_markdown_cell :: "string \<Rightarrow> ('v, 'o) notebook_node" where
  "new_markdown_cell src =
     \<lparr>cell_type = ''markdown'', source = src, metadata = [], outputs = None, execution_count = None\<rparr>"

definition new_code_cell :: "string \<Rightarrow> ('v, 'o) notebook_node" where
  "new_code_cell src =
     \<lparr>cell_type = ''code'', source = src, metadata = [], outputs = Some [], execution_count = Some None\<rparr>"

text \<open>The two modules, \<open>app.py\<close> and \<open>streamlit_app.py\<close>, each with its own \<open>NotebookDocumenter\<close>.\<close>

datatype module = App | Streamlit_app

text \<open>
  What \<open>extract_cells\<close> is given: a string (the path of the notebook in \<open>app.py\<close>, the
  text of the notebook in \<open>streamlit_app.py\<close>) or a notebook already read. The reader
  (\<open>open\<close> and \<open>nbformat.read\<close> in \<open>app.py\<close>, \<open>nbformat.reads\<close> in \<open>streamlit_app.py\<close>) is a
  parameter; it raises or returns the notebook.
\<close>

datatype ('v, 'o) notebook_content = Str string | Notebook "('v, 'o) notebook_node list"

type_synonym ('v, 'o) reader = "string \<Rightarrow> exn + ('v, 'o) notebook_node list"

definition cell_dicts :: "('v, 'o) notebook_node list \<Rightarrow> cell list" where
  "cell_dicts nb = map (\<lambda>cell. \<lparr>type = cell_type cell, content = source cell\<rparr>) nb"

fun extract_cells :: "module \<Rightarrow> ('v, 'o) reader \<Rightarrow> ('v, 'o) notebook_content \<Rightarrow> exn + cell list" where
  "extract_cells App read (Str notebook_path) =
     (case read notebook_path of Inl e \<Rightarrow> Inl e | Inr nb \<Rightarrow> Inr (cell_dicts nb))"
| "extract_cells App read (Notebook nb) =
     Inl (Exn ''TypeError'' ''expected str, bytes or os.PathLike object, not NotebookNode'')"
| "extract_cells Streamlit_app read (Str notebook_content) =
     (case read notebook_content of Inl e \<Rightarrow> Inl e | Inr nb \<Rightarrow> Inr (cell_dicts nb))"
| "extract_cells Streamlit_app read (Notebook nb) = Inr (cell_dicts nb)"

section \<open>Prompts\<close>

text \<open>
  The prompt templates of the two modules, character for character, with the notebook's
  code in the place of \<open>{code}\<close>, \<open>{full_context}\<close> and \<open>{cell_content}\<close>.
\<close>

definition overview_prompt_app :: "string \<Rightarrow> string" where
  \<open>overview_prompt_app code =
     ''Understand this Jupyter notebook code and provide:\<newline>'' @
     ''        1. Start with generating a title describing the notebook'' @ [CHR 0x27] @ ''s purpose , and dont wirte "Title:"\<newline>'' @
     ''        2. A brief summary (2-3 sentences) about what the notebook does, without extra details.and dont wirte "Summary"\<newline>'' @
     ''\<newline>'' @
     ''        Keep it concise and technical. Write as a data scientist would document their work.\<newline>'' @
     ''        No placeholder text or generic descriptions.\<newline>'' @
     ''\<newline>'' @
     ''        Code:\<newline>'' @
     ''        ```python\<newline>'' @
     ''        '' @
     code @
     ''\<newline>'' @
     ''        ```''\<close>

definition cell_doc_prompt_app :: "string \<Rightarrow> string \<Rightarrow> string" where
  \<open>cell_doc_prompt_app cell_content full_context =
     ''As an expert data scientist documenting your work, briefly explain what this code does in the context of the notebook'' @ [CHR 0x27] @ ''s workflow. \<newline>'' @
     ''        Write naturally as if documenting your own work, not as an AI, \<newline>'' @
     ''        if it is null cell dont generate anything and generate text based on complexity and length of the code present in the cell.\<newline>'' @
     ''\<newline>'' @
     ''        Full notebook context:\<newline>'' @
     ''        ```python\<newline>'' @
     ''        '' @
     full_context @
     ''\<newline>'' @
     ''        ```\<newline>'' @
     ''\<newline>'' @
     ''        Current code:\<newline>'' @
     ''        ```python\<newline>'' @
     ''        '' @
     cell_content @
     ''\<newline>'' @
     ''        ```\<newline>'' @
     ''\<newline>'' @
     ''       Requirements:\<newline>'' @
     ''       - Write in third person technical documentation style\<newline>'' @
     ''       - No "This code..." or "Here we..." phrases\<newline>'' @
     ''       - Be extremely concise - even one phrase is fine if it captures the point\<newline>'' @
     ''       - Focus only on meaningful operations\<newline>'' @
     ''       - Mention variable names only if crucial\<newline>'' @
     ''       - Skip obvious operations\<newline>'' @
     ''\<newline>'' @
     ''       Example good responses:\<newline>'' @
     ''       - "Normalizes features using StandardScaler"\<newline>'' @
     ''       - "Extracts timestamp from log entries for temporal analysis"\<newline>'' @
     ''       - "Merges preprocessed datasets on user_id"\<newline>'' @
     ''       - "Custom function to handle missing GPS coordinates"\<newline>'' @
     ''\<newline>'' @
     ''       Example bad responses:\<newline>'' @
     ''       - "This code performs..."\<newline>'' @
     ''       - "Here we can see..."\<newline>'' @
     ''       - "This cell is about..."\<newline>'' @
     ''       - Any obvious/redundant explanations''\<close>

definition overview_prompt_st :: "string \<Rightarrow> string" where
  \<open>overview_prompt_st code =
     ''Understand this Jupyter notebook code and provide:\<newline>'' @
     ''        1. Start with generating a title describing the notebook'' @ [CHR 0x27] @ ''s purpose , and dont write "Title:"\<newline>'' @
     ''        2. A brief summary (2-3 sentences) about what the notebook does, without extra details.and dont write "Summary"\<newline>'' @
     ''\<newline>'' @
     ''        Keep it concise and technical. Write as a data scientist would document their work.\<newline>'' @
     ''        No placeholder text or generic descriptions.\<newline>'' @
     ''\<newline>'' @
     ''        Code:\<newline>'' @
     ''        ```python\<newline>'' @
     ''        '' @
     code @
     ''\<newline>'' @
     ''        ```''\<close>

definition cell_doc_prompt_st :: "string \<Rightarrow> string \<Rightarrow> string" where
  \<open>cell_doc_prompt_st cell_content full_context =
     ''As an expert data scientist documenting your work, briefly explain what this code does in the context of the notebook'' @ [CHR 0x27] @ ''s workflow. \<newline>'' @
     ''        Write naturally as if documenting your own work, not as an AI, \<newline>'' @
     ''        if it is null cell dont generate anything and generate text based on complexity and length of the code present in the cell.\<newline>'' @
     ''\<newline>'' @
     ''        Full notebook context:\<newline>'' @
     ''        ```python\<newline>'' @
     ''        '' @
     full_context @
     ''\<newline>'' @
     ''        ```\<newline>'' @
     ''\<newline>'' @
     ''        Current code:\<newline>'' @
     ''        ```python\<newline>'' @
     ''        '' @
     cell_content @
     ''\<newline>'' @
     ''        ```\<newline>'' @
     ''\<newline>'' @
     ''       Requirements:\<newline>'' @
     ''       - Write in third person technical documentation style\<newline>'' @
     ''       - No "This code..." or "Here we..." phrases\<newline>'' @
     ''       - Be extremely concise - even one phrase is fine if it captures the point\<newline>'' @
     ''       - Focus only on meaningful operations\<newline>'' @
     ''       - Mention variable names only if crucial\<newline>'' @
     ''       - Skip obvious operations.\<newline>'' @
     ''\<newline>'' @
     ''       Example good responses:\<newline>'' @
     ''       - "Normalizes features using StandardScaler"\<newline>'' @
     ''       - "Extracts timestamp from log entries for temporal analysis"\<newline>'' @
     ''       - "Merges preprocessed datasets on user_id"\<newline>'' @
     ''       - "Custom function to handle missing GPS coordinates"\<newline>'' @
     ''\<newline>'' @
     ''       Example bad responses:\<newline>'' @
     ''       - "This code performs..."\<newline>'' @
     ''       - "Here we can see..."\<newline>'' @
     ''       - "This cell is about..."\<newline>'' @
     ''       - " The code .."\<newline>'' @
     ''       - Any obvious/redundant explanations       \<newline>'' @
     ''       ''\<close>

section \<open>The generators\<close>

definition chat_request :: "string \<Rightarrow> real \<Rightarrow> nat \<Rightarrow> request" where
  "chat_request prompt temp n =
     \<lparr>model = ''llama3-8b-8192'', messages = [(''user'', prompt)], temperature = temp,
      max_tokens = n, top_p = 1, stream = False\<rparr>"

fun overview_request :: "module \<Rightarrow> string \<Rightarrow> request" where
  "overview_request App code = chat_request (overview_prompt_app code) (3 / 10) 300"
| "overview_request Streamlit_app code = chat_request (overview_prompt_st code) (7 / 10) 300"

fun cell_doc_request :: "module \<Rightarrow> string \<Rightarrow> string \<Rightarrow> request" where
  "cell_doc_request App cell_content full_context =
     chat_request (cell_doc_prompt_app cell_content full_context) (2 / 10) 100"
| "cell_doc_request Streamlit_app cell_content full_context =
     chat_request (cell_doc_prompt_st cell_content full_context) (6 / 10) 100"

text \<open>The \<open>except\<close> branches.\<close>

fun overview_error :: "module \<Rightarrow> exn \<Rightarrow> string" where
  "overview_error App e = ''# Jupyter Notebook Documentation\<newline>\<newline>*Error generating overview*''"
| "overview_error Streamlit_app e =
     ''# Jupyter Notebook Documentation\<newline>\<newline>*Error generating overview: '' @ str e @ ''*''"

fun cell_doc_error :: "module \<Rightarrow> exn \<Rightarrow> string" where
  "cell_doc_error App e = ''*Error generating documentation*''"
| "cell_doc_error Streamlit_app e = ''*Error generating documentation: '' @ str e @ ''*''"

text \<open>The local \<open>all_code\<close> of \<open>get_notebook_overview\<close>.\<close>

definition all_code :: "cell list \<Rightarrow> string" where
  "all_code cells = join ''\<newline>'' [content cell. cell \<leftarrow> cells, type cell = ''code'']"

definition get_notebook_overview ::
  "module \<Rightarrow> client \<Rightarrow> cell list \<Rightarrow> request list \<Rightarrow> (exn + string) \<times> request list" where
  "get_notebook_overview m client cells sent =
     try_completion client (overview_request m (all_code cells)) (overview_error m) sent"

fun generate_cell_doc ::
  "module \<Rightarrow> client \<Rightarrow> string \<Rightarrow> string \<Rightarrow> request list \<Rightarrow> (exn + string) \<times> request list" where
  "generate_cell_doc App client cell_content full_context sent =
     try_completion client (cell_doc_request App cell_content full_context) (cell_doc_error App) sent"
| "generate_cell_doc Streamlit_app client cell_content full_context sent =
     (if strip cell_content = [] then (Inr [], sent)
      else try_completion client (cell_doc_request Streamlit_app cell_content full_context)
             (cell_doc_error Streamlit_app) sent)"

section \<open>The documented notebook\<close>

text \<open>The local \<open>full_context\<close> of \<open>create_documented_notebook\<close>.\<close>

definition full_context :: "cell list \<Rightarrow> string" where
  "full_context cells = join ''\<newline>\<newline>'' [content cell. cell \<leftarrow> cells, type cell = ''code'']"

text \<open>
  The loop \<open>for cell in cells\<close> of \<open>create_documented_notebook\<close>; \<open>new_nb\<close> is the list
  \<open>new_nb.cells\<close> built so far. A cell that is neither a code cell with text left after
  \<open>strip()\<close> nor a markdown cell takes no branch.
\<close>

fun process_cells ::
  "module \<Rightarrow> client \<Rightarrow> string \<Rightarrow> cell list \<Rightarrow> ('v, 'o) notebook_node list \<Rightarrow> request list \<Rightarrow>
     (exn + ('v, 'o) notebook_node list) \<times> request list" where
  "process_cells m client ctx [] new_nb sent = (Inr new_nb, sent)"
| "process_cells m client ctx (cell # cells) new_nb sent =
     (if type cell = ''code'' \<and> strip (content cell) \<noteq> [] then
        (case generate_cell_doc m client (content cell) ctx sent of
           (Inl e, sent') \<Rightarrow> (Inl e, sent')
         | (Inr doc, sent') \<Rightarrow>
             process_cells m client ctx cells
               ((if doc \<noteq> [] then new_nb @ [new_markdown_cell doc] else new_nb) @
                [new_code_cell (content cell)]) sent')
      else if type cell = ''markdown'' then
        process_cells m client ctx cells (new_nb @ [new_markdown_cell (content cell)]) sent
      else process_cells m client ctx cells new_nb sent)"

text \<open>
  \<open>create_documented_notebook\<close>, up to the notebook it has built: \<open>streamlit_app.py\<close>
  returns it, \<open>app.py\<close> hands it to \<open>nbformat.write\<close>. The spinner and the progress bar of
  \<open>streamlit_app.py\<close> are display only.
\<close>

definition create_documented_notebook ::
  "module \<Rightarrow> ('v, 'o) reader \<Rightarrow> client \<Rightarrow> ('v, 'o) notebook_content \<Rightarrow> request list \<Rightarrow>
     (exn + ('v, 'o) notebook_node list) \<times> request list" where
  "create_documented_notebook m read client notebook_content sent =
     (case extract_cells m read notebook_content of
        Inl e \<Rightarrow> (Inl e, sent)
      | Inr cells \<Rightarrow>
          (case get_notebook_overview m client cells sent of
             (Inl e, sent') \<Rightarrow> (Inl e, sent')
           | (Inr overview, sent') \<Rightarrow>
               process_cells m client (full_context cells) cells [new_markdown_cell overview] sent'))"

section \<open>Downloading from a Colab link\<close>

text \<open>The character class \<open>[a-zA-Z0-9-_]\<close>.\<close>

definition id_char :: "char \<Rightarrow> bool" where
  "id_char c \<longleftrightarrow> c \<in> set (''abcdefghijklmnopqrstuvwxyz'' @ ''ABCDEFGHIJKLMNOPQRSTUVWXYZ'' @
                           ''0123456789'' @ ''-_'')"

text \<open>
  Each of the three patterns is a literal followed by one group, a greedy run of at least
  \<open>n\<close> characters of the class. \<open>re.search\<close> takes the leftmost position where the literal
  stands and at least \<open>n\<close> such characters follow; the group is the whole run.
  \<open>search lit n s\<close> is \<open>match.group(1)\<close>, or \<open>None\<close> when there is no match.
\<close>

fun search :: "string \<Rightarrow> nat \<Rightarrow> string \<Rightarrow> string option" where
  "search lit n [] = None"
| "search lit n (c # s) =
     (if prefix lit (c # s) \<and> n \<le> length (takeWhile id_char (drop (length lit) (c # s)))
      then Some (takeWhile id_char (drop (length lit) (c # s)))
      else search lit n s)"

definition patterns :: "(string \<times> nat) list" where
  "patterns = [(''/d/'', 1), (''drive/'', 1), (''/'', 20)]"

text \<open>The loop over \<open>patterns\<close>: the first pattern that matches gives \<open>file_id\<close>.\<close>

fun find_file_id :: "(string \<times> nat) list \<Rightarrow> string \<Rightarrow> string option" where
  "find_file_id [] colab_url = None"
| "find_file_id ((lit, n) # ps) colab_url =
     (case search lit n colab_url of
        Some file_id \<Rightarrow> Some file_id
      | None \<Rightarrow> find_file_id ps colab_url)"

record http_response =
  status_code :: nat
  response_content :: string

text \<open>
  \<open>requests.get\<close> is a parameter like the completion service: it sees the URLs requested
  before, and raises or returns a response. \<open>parse\<close> stands for
  \<open>nbformat.reads(response.content.decode('utf-8'), as_version=4)\<close>.
\<close>

type_synonym http = "string list \<Rightarrow> string \<Rightarrow> exn + http_response"

definition not_found :: exn where
  "not_found = Exn ''ValueError'' ''Could not extract file ID from the provided Colab URL''"

definition unable :: exn where
  \<open>unable = Exn ''ValueError''
    (''Unable to download the notebook. This might be because:\<newline>'' @
     ''    1. The notebook isn'' @ [CHR 0x27] @ ''t publicly shared\<newline>'' @
     ''    2. The URL format is not supported\<newline>'' @
     ''    3. Google Drive access restrictions\<newline>'' @
     ''    \<newline>'' @
     ''    Please make sure the notebook is publicly accessible and try again.'')\<close>

text \<open>The loop over \<open>download_urls\<close>; both \<open>except\<close> clauses are bare.\<close>

fun try_download ::
  "http \<Rightarrow> (string \<Rightarrow> exn + 'nb) \<Rightarrow> string list \<Rightarrow> string list \<Rightarrow> (exn + 'nb) \<times> string list" where
  "try_download get parse [] sent = (Inl unable, sent)"
| "try_download get parse (download_url # urls) sent =
     (case get sent download_url of
        Inl e \<Rightarrow> try_download get parse urls (sent @ [download_url])
      | Inr response \<Rightarrow>
          if status_code response = 200 then
            (case parse (response_content response) of
               Inr nb \<Rightarrow> (Inr nb, sent @ [download_url])
             | Inl e \<Rightarrow> try_download get parse urls (sent @ [download_url]))
          else try_download get parse urls (sent @ [download_url]))"

definition download_urls :: "string \<Rightarrow> string list" where
  "download_urls file_id =
     [''https://drive.google.com/uc?id='' @ file_id,
      ''https://drive.google.com/uc?export=download&id='' @ file_id]"

definition download_colab_notebook ::
  "http \<Rightarrow> (string \<Rightarrow> exn + 'nb) \<Rightarrow> string \<Rightarrow> string list \<Rightarrow> (exn + 'nb) \<times> string list" where
  "download_colab_notebook get parse colab_url sent =
     (case find_file_id patterns colab_url of
        None \<Rightarrow> (Inl not_found, sent)
      | Some file_id \<Rightarrow>
          if file_id = [] then (Inl not_found, sent)
          else try_download get parse (download_urls file_id) sent)"

section \<open>Notions used in the statements\<close>

text \<open>The condition of the first branch of the loop: a code cell with text left after \<open>strip()\<close>.\<close>

definition documented :: "cell \<Rightarrow> bool" where
  "documented cell \<longleftrightarrow> type cell = ''code'' \<and> strip (content cell) \<noteq> []"

text \<open>The cells that take one of the two branches of the loop.\<close>

definition kept :: "cell \<Rightarrow> bool" where
  "kept cell \<longleftrightarrow> documented cell \<or> type cell = ''markdown''"

text \<open>An input cell as a cell of the output: same kind, same text.\<close>

definition original :: "cell \<Rightarrow> ('v, 'o) notebook_node" where
  "original cell =
     (if type cell = ''code'' then new_code_cell (content cell) else new_markdown_cell (content cell))"

text \<open>
  What one pass of the loop appends to \<open>new_nb\<close> for a cell: for a code cell with text left
  after \<open>strip()\<close> the code cell, alone or after one markdown cell of non-empty text; for a
  markdown cell that cell; for any other cell nothing.
\<close>

definition emission :: "cell \<Rightarrow> ('v, 'o) notebook_node list \<Rightarrow> bool" where
  "emission cell out \<longleftrightarrow>
     (if type cell = ''code'' \<and> strip (content cell) \<noteq> [] then
        out = [new_code_cell (content cell)] \<or>
        (\<exists>doc. doc \<noteq> [] \<and> out = [new_markdown_cell doc, new_code_cell (content cell)])
      else if type cell = ''markdown'' then out = [new_markdown_cell (content cell)]
      else out = [])"

text \<open>The requests of the per-cell calls of one run, in the order of the cells.\<close>

definition cell_requests :: "module \<Rightarrow> cell list \<Rightarrow> request list" where
  "cell_requests m cells =
     map (\<lambda>c. cell_doc_request m (content c) (full_context cells)) (filter documented cells)"

text \<open>
  The exception the \<open>try\<close> block of a generator raises for a request, if any: the one the
  service raises, or the one reading the text of its response raises.
\<close>

definition raised :: "client \<Rightarrow> request \<Rightarrow> request list \<Rightarrow> exn option" where
  "raised client req sent =
     (case client sent req of
        Inl e \<Rightarrow> Some e
      | Inr response \<Rightarrow> (case message_text response of Inl e \<Rightarrow> Some e | Inr text \<Rightarrow> None))"

subsection \<open>Concrete inputs\<close>

text \<open>
  A notebook of three cells: an empty code cell, the code cell \<open>x=1\<close> (executed, with an
  output and metadata) and a markdown cell.
\<close>

definition scenario :: "(string, string) notebook_node list" where
  "scenario =
     [\<lparr>cell_type = ''code'', source = [], metadata = [], outputs = Some [], execution_count = Some None\<rparr>,
      \<lparr>cell_type = ''code'', source = ''x=1'', metadata = [(''tags'', ''setup'')],
        outputs = Some [''1''], execution_count = Some (Some 3)\<rparr>,
      \<lparr>cell_type = ''markdown'', source = ''note'', metadata = [], outputs = None, execution_count = None\<rparr>]"

text \<open>
  A service that answers the \<open>k\<close>-th request with the \<open>k\<close>-th text of a list and raises
  once the list is used up.
\<close>

definition scripted :: "string list \<Rightarrow> client" where
  "scripted answers sent req =
     (if length sent < length answers then Inr [Some (answers ! length sent)]
      else Inl (Exn ''APIConnectionError'' ''Connection error.''))"

text \<open>A reader that finds nothing to read.\<close>

definition no_reader :: "(string, string) reader" where
  "no_reader path = Inl (Exn ''FileNotFoundError'' ''No such file or directory'')"

text \<open>A reader that returns the three-cell notebook whatever the path.\<close>

definition scenario_reader :: "(string, string) reader" where
  "scenario_reader path = Inr scenario"

text \<open>A service that raises the same exception on every request.\<close>

definition raising :: "exn \<Rightarrow> client" where
  "raising e sent req = Inl e"

subsection \<open>Download attempts\<close>

text \<open>A host that cannot be reached.\<close>

definition offline :: http where
  "offline sent url = Inl (Exn ''ConnectionError'' ''Max retries exceeded'')"

text \<open>
  What one pass of the loop over \<open>download_urls\<close> returns from, if it does: the notebook of a
  response with status 200 whose content parses.
\<close>

definition accepted :: "http \<Rightarrow> (string \<Rightarrow> exn + 'nb) \<Rightarrow> string list \<Rightarrow> string \<Rightarrow> 'nb option" where
  "accepted get parse sent url =
     (case get sent url of
        Inl e \<Rightarrow> None
      | Inr response \<Rightarrow>
          if status_code response = 200 then
            (case parse (response_content response) of Inr nb \<Rightarrow> Some nb | Inl e \<Rightarrow> None)
          else None)"

text \<open>
  A host that serves a notebook at the second download URL of the file \<open>1abc\<close> and answers
  404 anywhere else, and a parser that accepts that content only.
\<close>

definition drive :: http where
  "drive sent url =
     (if url = ''https://drive.google.com/uc?export=download&id=1abc''
      then Inr \<lparr>status_code = 200, response_content = ''{}''\<rparr>
      else Inr \<lparr>status_code = 404, response_content = []\<rparr>)"

definition parse_example :: "string \<Rightarrow> exn + (string, string) notebook_node list" where
  "parse_example s = (if s = ''{}'' then Inr [] else Inl (Exn ''NotJSONError'' ''Notebook does not appear to be JSON''))"

section \<open>The generators and the loop\<close>

text \<open>One generation call always returns a text and sends exactly its request.\<close>

lemma try_completion_ok:
  "\<exists>text. try_completion client req handler sent = (Inr text, sent @ [req])"
  by (simp add: try_completion_def create_def split: sum.split)

lemma generate_cell_doc_ok:
  "strip code \<noteq> [] \<Longrightarrow>
   \<exists>doc. generate_cell_doc m client code ctx sent = (Inr doc, sent @ [cell_doc_request m code ctx])"
  using try_completion_ok by (cases m) simp_all

lemma get_notebook_overview_ok:
  "\<exists>text. get_notebook_overview m client cells sent =
          (Inr text, sent @ [overview_request m (all_code cells)])"
  unfolding get_notebook_overview_def by (rule try_completion_ok)

lemma try_completion_text:
  "fst (try_completion client req handler sent) =
     Inr (case raised client req sent of
            Some e \<Rightarrow> handler e
          | None \<Rightarrow> (case client sent req of Inr (Some text # rest) \<Rightarrow> strip text | _ \<Rightarrow> []))"
  by (auto simp: try_completion_def create_def raised_def message_text_def
           split: sum.splits list.splits option.splits)

lemma raised_None:
  "raised client req sent = None \<longleftrightarrow> (\<exists>text rest. client sent req = Inr (Some text # rest))"
  by (auto simp: raised_def message_text_def split: sum.splits list.splits option.splits)

lemma overview_error_nonempty: "overview_error m e \<noteq> []"
  by (cases m) simp_all

lemma cell_type_new [simp]:
  "cell_type (new_code_cell s) = ''code''" "cell_type (new_markdown_cell s) = ''markdown''"
  "source (new_code_cell s) = s" "source (new_markdown_cell s) = s"
  by (simp_all add: new_code_cell_def new_markdown_cell_def)

text \<open>
  The loop never raises. What it appends to \<open>new_nb\<close> does not depend on \<open>new_nb\<close>; the
  cells it keeps are in it, in order, and its code cells are exactly the documented ones.
\<close>

lemma process_cells_run:
  "\<exists>out :: ('v, 'o) notebook_node list. (\<forall>nb. process_cells m client ctx cs nb sent =
            (Inr (nb @ out), sent @ map (\<lambda>c. cell_doc_request m (content c) ctx) (filter documented cs)))
       \<and> subseq (map original (filter kept cs)) out
       \<and> filter (\<lambda>n. cell_type n = ''code'') out = map original (filter documented cs)"
proof (induction cs arbitrary: sent)
  case Nil
  show ?case by simp
next
  case (Cons c cs)
  show ?case
  proof (cases "documented c")
    case True
    then have "strip (content c) \<noteq> []" by (simp add: documented_def)
    from generate_cell_doc_ok[OF this, of m client ctx sent]
    obtain doc where d: "generate_cell_doc m client (content c) ctx sent = (Inr doc, sent @ [cell_doc_request m (content c) ctx])"
      by blast
    from Cons[of "sent @ [cell_doc_request m (content c) ctx]"] obtain out :: "('v, 'o) notebook_node list" where
      o: "\<forall>nb. process_cells m client ctx cs nb (sent @ [cell_doc_request m (content c) ctx]) =
            (Inr (nb @ out), (sent @ [cell_doc_request m (content c) ctx]) @ map (\<lambda>c. cell_doc_request m (content c) ctx) (filter documented cs))"
       "subseq (map original (filter kept cs)) out"
       "filter (\<lambda>n. cell_type n = ''code'') out = map original (filter documented cs)"
      by blast
    let ?out = "(if doc \<noteq> [] then [new_markdown_cell doc] else []) @ [new_code_cell (content c)] @ out"
    have "\<forall>nb. process_cells m client ctx (c # cs) nb sent =
            (Inr (nb @ ?out), sent @ map (\<lambda>c. cell_doc_request m (content c) ctx) (filter documented (c # cs)))"
      using True d o(1) by (simp add: documented_def)
    moreover have "subseq (map original (filter kept (c # cs))) ?out"
      using True o(2) by (auto simp: kept_def original_def documented_def)
    moreover have "filter (\<lambda>n. cell_type n = ''code'') ?out = map original (filter documented (c # cs))"
      using True o(3) by (simp add: original_def documented_def)
    ultimately show ?thesis by blast
  next
    case False
    from Cons[of sent] obtain out :: "('v, 'o) notebook_node list" where
      o: "\<forall>nb. process_cells m client ctx cs nb sent =
            (Inr (nb @ out), sent @ map (\<lambda>c. cell_doc_request m (content c) ctx) (filter documented cs))"
       "subseq (map original (filter kept cs)) out"
       "filter (\<lambda>n. cell_type n = ''code'') out = map original (filter documented cs)"
      by blast
    let ?out = "(if type c = ''markdown'' then [new_markdown_cell (content c)] else []) @ out"
    have "\<forall>nb. process_cells m client ctx (c # cs) nb sent =
            (Inr (nb @ ?out), sent @ map (\<lambda>c. cell_doc_request m (content c) ctx) (filter documented (c # cs)))"
      using False o(1) by (auto simp: documented_def)
    moreover have "subseq (map original (filter kept (c # cs))) ?out"
      using False o(2) by (auto simp: kept_def original_def documented_def)
    moreover have "filter (\<lambda>n. cell_type n = ''code'') ?out = map original (filter documented (c # cs))"
      using False o(3) by (auto simp: original_def documented_def)
    ultimately show ?thesis by blast
  qed
qed

lemma process_cells_append:
  "process_cells m client ctx (xs @ ys) nb sent =
     (case process_cells m client ctx xs nb sent of
        (Inl e, s) \<Rightarrow> (Inl e, s)
      | (Inr nb', s) \<Rightarrow> process_cells m client ctx ys nb' s)"
  by (induction xs arbitrary: nb sent) (auto split: prod.splits sum.splits)

lemma create_run:
  assumes "extract_cells m read src = Inr cells"
  shows "\<exists>overview (out :: ('v, 'o) notebook_node list).
           get_notebook_overview m client cells sent =
             (Inr overview, sent @ [overview_request m (all_code cells)])
         \<and> (\<forall>nb. process_cells m client (full_context cells) cells nb
                    (sent @ [overview_request m (all_code cells)]) =
                  (Inr (nb @ out), sent @ overview_request m (all_code cells) # cell_requests m cells))
         \<and> subseq (map original (filter kept cells)) out
         \<and> filter (\<lambda>n. cell_type n = ''code'') out = map original (filter documented cells)
         \<and> create_documented_notebook m read client src sent =
             (Inr (new_markdown_cell overview # out),
              sent @ overview_request m (all_code cells) # cell_requests m cells)"
proof -
  obtain overview where ov: "get_notebook_overview m client cells sent =
          (Inr overview, sent @ [overview_request m (all_code cells)])"
    using get_notebook_overview_ok by blast
  obtain out :: "('v, 'o) notebook_node list" where
    o: "\<forall>nb. process_cells m client (full_context cells) cells nb
                    (sent @ [overview_request m (all_code cells)]) =
                  (Inr (nb @ out), (sent @ [overview_request m (all_code cells)]) @
                     map (\<lambda>c. cell_doc_request m (content c) (full_context cells)) (filter documented cells))"
       "subseq (map original (filter kept cells)) out"
       "filter (\<lambda>n. cell_type n = ''code'') out = map original (filter documented cells)"
    using process_cells_run[of m client "full_context cells" cells "sent @ [overview_request m (all_code cells)]"]
    by blast
  have "create_documented_notebook m read client src sent =
             (Inr (new_markdown_cell overview # out),
              sent @ overview_request m (all_code cells) # cell_requests m cells)"
    using assms ov o(1) by (simp add: create_documented_notebook_def cell_requests_def)
  with ov o show ?thesis by (auto simp: cell_requests_def)
qed

lemmas run_defs = create_documented_notebook_def get_notebook_overview_def try_completion_def
  create_def message_text_def strip_def isspace_def scripted_def cell_dicts_def scenario_def

lemma scenario_cells:
  "extract_cells Streamlit_app no_reader (Notebook scenario) =
     Inr ([\<lparr>type = ''code'', content = []\<rparr>] @ \<lparr>type = ''code'', content = ''x=1''\<rparr> #
          [\<lparr>type = ''markdown'', content = ''note''\<rparr>])"
  by (simp add: cell_dicts_def scenario_def)

lemma strip_x1: "strip ''x=1'' \<noteq> []"
  by (simp add: strip_def isspace_def)

lemma generate_cell_doc_total:
  "\<exists>doc s. generate_cell_doc m client code ctx sent = (Inr doc, s)"
  using try_completion_ok by (cases m) (simp_all, blast+)

lemma try_completion_raised:
  "raised client req sent = Some e \<Longrightarrow>
   try_completion client req handler sent = (Inr (handler e), sent @ [req])"
  by (auto simp: try_completion_def create_def raised_def split: sum.splits)

lemma generate_cell_doc_streamlit_blank:
  "strip cell_content = [] \<Longrightarrow>
   generate_cell_doc Streamlit_app client cell_content ctx sent = (Inr [], sent)"
  by simp

text \<open>The two context strings, one cell at a time.\<close>

lemma join_snoc:
  "join sep (xs @ [x]) = (if xs = [] then x else join sep xs @ sep @ x)"
  by (induction sep xs rule: join.induct) auto

lemma code_contents:
  "[content cell. cell \<leftarrow> cells, type cell = ''code''] =
     map content (filter (\<lambda>cell. type cell = ''code'') cells)"
  by (induction cells) auto

lemma join_code_snoc:
  "join sep (map content (filter (\<lambda>cell. type cell = ''code'') (cells @ [c]))) =
     (if type c \<noteq> ''code'' then join sep (map content (filter (\<lambda>cell. type cell = ''code'') cells))
      else if list_ex (\<lambda>cell. type cell = ''code'') cells
        then join sep (map content (filter (\<lambda>cell. type cell = ''code'') cells)) @ sep @ content c
      else content c)"
  by (auto simp: join_snoc filter_empty_conv list_ex_iff)

text \<open>Every cell of the output is built by one of the two constructors.\<close>

lemma process_cells_new:
  "process_cells m client ctx cs nb sent = (Inr out, s) \<Longrightarrow>
   list_all (\<lambda>n. n = new_markdown_cell (source n) \<or> n = new_code_cell (source n)) nb \<Longrightarrow>
   list_all (\<lambda>n. n = new_markdown_cell (source n) \<or> n = new_code_cell (source n)) out"
proof (induction cs arbitrary: nb sent)
  case Nil
  then show ?case by simp
next
  case (Cons c cs)
  show ?case
  proof (cases "documented c")
    case True
    then have "strip (content c) \<noteq> []" by (simp add: documented_def)
    from generate_cell_doc_ok[OF this, of m client ctx sent] obtain doc where
      d: "generate_cell_doc m client (content c) ctx sent = (Inr doc, sent @ [cell_doc_request m (content c) ctx])"
      by blast
    have "process_cells m client ctx cs
            ((if doc \<noteq> [] then nb @ [new_markdown_cell doc] else nb) @ [new_code_cell (content c)])
            (sent @ [cell_doc_request m (content c) ctx]) = (Inr out, s)"
      using Cons.prems(1) True d by (simp add: documented_def)
    moreover have "list_all (\<lambda>n. n = new_markdown_cell (source n) \<or> n = new_code_cell (source n))
            ((if doc \<noteq> [] then nb @ [new_markdown_cell doc] else nb) @ [new_code_cell (content c)])"
      using Cons.prems(2) by simp
    ultimately show ?thesis by (rule Cons.IH)
  next
    case False
    show ?thesis
    proof (cases "type c = ''markdown''")
      case True
      have "process_cells m client ctx cs (nb @ [new_markdown_cell (content c)]) sent = (Inr out, s)"
        using Cons.prems(1) True by simp
      moreover have "list_all (\<lambda>n. n = new_markdown_cell (source n) \<or> n = new_code_cell (source n))
            (nb @ [new_markdown_cell (content c)])"
        using Cons.prems(2) by simp
      ultimately show ?thesis by (rule Cons.IH)
    next
      case nm: False
      have "process_cells m client ctx cs nb sent = (Inr out, s)"
        using Cons.prems(1) False nm by (auto simp: documented_def)
      then show ?thesis using Cons.prems(2) by (rule Cons.IH)
    qed
  qed
qed

lemma cell_dicts_pairs:
  "cell_dicts nb = map (\<lambda>(t, s). \<lparr>type = t, content = s\<rparr>) (map (\<lambda>n. (cell_type n, source n)) nb)"
  by (simp add: cell_dicts_def)

lemma cell_dicts_cong:
  assumes "map (\<lambda>n. (cell_type n, source n)) nb = map (\<lambda>n. (cell_type n, source n)) nb'"
  shows "cell_dicts nb = cell_dicts nb'"
  by (simp only: cell_dicts_pairs[of nb] cell_dicts_pairs[of nb'] assms)

section \<open>Patterns and downloads\<close>

text \<open>
  A match of \<open>search\<close> is the literal followed by the group: at least \<open>n\<close> characters of the
  class, and no character of the class after them.
\<close>

lemma search_Some:
  "search lit n s = Some g \<Longrightarrow>
   \<exists>pre post. s = pre @ lit @ g @ post \<and> n \<le> length g \<and> list_all id_char g
      \<and> (post = [] \<or> \<not> id_char (hd post))"
proof (induction s)
  case Nil
  then show ?case by simp
next
  case (Cons c s)
  show ?case
  proof (cases "prefix lit (c # s) \<and> n \<le> length (takeWhile id_char (drop (length lit) (c # s)))")
    case True
    then have g: "g = takeWhile id_char (drop (length lit) (c # s))" using Cons.prems by simp
    from True obtain rest where r: "c # s = lit @ rest" by (auto simp: prefix_def)
    then have "rest = g @ dropWhile id_char rest" using g by simp
    moreover have "list_all id_char g" using g by (simp add: list_all_iff) (meson set_takeWhileD)
    moreover have "dropWhile id_char rest = [] \<or> \<not> id_char (hd (dropWhile id_char rest))"
      by (meson hd_dropWhile)
    ultimately show ?thesis using r True g
      by (intro exI[of _ "[]"] exI[of _ "dropWhile id_char rest"]) auto
  next
    case False
    then have "search lit n s = Some g" using Cons.prems by auto
    from Cons.IH[OF this] obtain pre post where
      p: "s = pre @ lit @ g @ post" "n \<le> length g" "list_all id_char g"
         "post = [] \<or> \<not> id_char (hd post)"
      by blast
    then have "c # s = (c # pre) @ lit @ g @ post" by simp
    with p(2,3,4) show ?thesis by blast
  qed
qed

lemma search_nonempty: "0 < n \<Longrightarrow> search lit n s = Some g \<Longrightarrow> g \<noteq> []"
  by (induction s) (auto split: if_splits)

lemma find_file_id_None:
  "find_file_id ps url = None \<longleftrightarrow> (\<forall>(lit, n) \<in> set ps. search lit n url = None)"
  by (induction ps url rule: find_file_id.induct) (auto split: option.splits)

lemma find_file_id_first:
  "(\<forall>(l, k) \<in> set pre. search l k url = None) \<Longrightarrow> search lit n url = Some file_id \<Longrightarrow>
   find_file_id (pre @ (lit, n) # post) url = Some file_id"
  by (induction pre) (auto split: option.splits)

lemma find_file_id_patterns_nonempty: "find_file_id patterns url = Some file_id \<Longrightarrow> file_id \<noteq> []"
  by (auto simp: patterns_def split: option.splits dest!: search_nonempty[rotated])

lemma try_download_two:
  "try_download get parse [u1, u2] sent =
     (case accepted get parse sent u1 of
        Some nb \<Rightarrow> (Inr nb, sent @ [u1])
      | None \<Rightarrow>
          (case accepted get parse (sent @ [u1]) u2 of
             Some nb \<Rightarrow> (Inr nb, sent @ [u1, u2])
           | None \<Rightarrow> (Inl unable, sent @ [u1, u2])))"
  by (simp add: accepted_def split: sum.splits)

lemma colab_url_d: "search ''/d/'' 1 ''https://colab.research.google.com/drive/1abc'' = None"
  by (simp add: id_char_def)
lemma colab_url_drive: "search ''drive/'' 1 ''https://colab.research.google.com/drive/1abc'' = Some ''1abc''"
  by (simp add: id_char_def)
lemma colab_url_long: "search ''/'' 20 ''https://colab.research.google.com/drive/1abc'' = None"
  by (simp add: id_char_def)
lemma other_url_no_match: "search ''/d/'' 1 ''https://example.com/notebook'' = None"
  "search ''drive/'' 1 ''https://example.com/notebook'' = None"
  "search ''/'' 20 ''https://example.com/notebook'' = None"
  by (simp_all add: id_char_def)

text \<open>The body of the output is what the passes of the loop append, cell by cell.\<close>

lemma process_cells_groups:
  "\<exists>groups :: ('v, 'o) notebook_node list list.
      (\<forall>nb. fst (process_cells m client ctx cs nb sent) = Inr (nb @ concat groups))
    \<and> list_all2 emission cs groups"
proof (induction cs arbitrary: sent)
  case Nil
  show ?case by simp
next
  case (Cons c cs)
  show ?case
  proof (cases "documented c")
    case True
    then have "strip (content c) \<noteq> []" by (simp add: documented_def)
    from generate_cell_doc_ok[OF this, of m client ctx sent]
    obtain doc where d: "generate_cell_doc m client (content c) ctx sent =
        (Inr doc, sent @ [cell_doc_request m (content c) ctx])"
      by blast
    from Cons[of "sent @ [cell_doc_request m (content c) ctx]"]
    obtain groups :: "('v, 'o) notebook_node list list" where
      g: "\<forall>nb. fst (process_cells m client ctx cs nb (sent @ [cell_doc_request m (content c) ctx])) =
             Inr (nb @ concat groups)"
         "list_all2 emission cs groups"
      by blast
    let ?g = "(if doc \<noteq> [] then [new_markdown_cell doc] else []) @ [new_code_cell (content c)]"
    have "\<forall>nb. fst (process_cells m client ctx (c # cs) nb sent) = Inr (nb @ concat (?g # groups))"
      using True d g(1) by (simp add: documented_def)
    moreover have "emission c ?g"
      using True by (auto simp: emission_def documented_def)
    ultimately show ?thesis using g(2) by (intro exI[of _ "?g # groups"]) simp
  next
    case False
    from Cons[of sent]
    obtain groups :: "('v, 'o) notebook_node list list" where
      g: "\<forall>nb. fst (process_cells m client ctx cs nb sent) = Inr (nb @ concat groups)"
         "list_all2 emission cs groups"
      by blast
    let ?g = "(if type c = ''markdown'' then [new_markdown_cell (content c)] else [])"
    have "\<forall>nb. fst (process_cells m client ctx (c # cs) nb sent) = Inr (nb @ concat (?g # groups))"
      using False g(1) by (auto simp: documented_def)
    moreover have "emission c ?g"
      using False by (auto simp: emission_def documented_def)
    ultimately show ?thesis using g(2) by (intro exI[of _ "?g # groups"]) simp
  qed
qed

text \<open>The texts of the \<open>except\<close> branches start with their marker, so they are not empty.\<close>

lemma overview_error_prefix:
  "prefix ''# Jupyter Notebook Documentation\<newline>\<newline>*Error generating overview'' (overview_error m e)"
  by (cases m) simp_all

lemma cell_doc_error_prefix:
  "prefix ''*Error generating documentation'' (cell_doc_error m e)"
  by (cases m) simp_all

lemma cell_doc_error_nonempty: "cell_doc_error m e \<noteq> []"
  by (cases m) simp_all

text \<open>
  When the call for a code cell fails, the cell is still preceded by a markdown cell, which
  holds the text of the \<open>except\<close> branch.
\<close>

lemma failed_annotation_emitted:
  assumes ex: "extract_cells m read src = Inr (pre @ cell # post)"
    and doc: "documented cell"
    and r: "raised client (cell_doc_request m (content cell) (full_context (pre @ cell # post)))
              (sent @ overview_request m (all_code (pre @ cell # post)) #
                 map (\<lambda>c. cell_doc_request m (content c) (full_context (pre @ cell # post)))
                   (filter documented pre)) = Some e"
  shows "\<exists>before after :: ('v, 'o) notebook_node list.
           fst (create_documented_notebook m read client src sent) =
             Inr (before @ [new_markdown_cell (cell_doc_error m e), new_code_cell (content cell)] @ after)"
proof -
  let ?cells = "pre @ cell # post"
  let ?ctx = "full_context ?cells"
  let ?s1 = "sent @ [overview_request m (all_code ?cells)]"
  let ?s2 = "?s1 @ map (\<lambda>c. cell_doc_request m (content c) ?ctx) (filter documented pre)"
  obtain overview where ov: "get_notebook_overview m client ?cells sent = (Inr overview, ?s1)"
    using get_notebook_overview_ok by blast
  obtain out1 :: "('v, 'o) notebook_node list" where
    p1: "\<forall>nb. process_cells m client ?ctx pre nb ?s1 = (Inr (nb @ out1), ?s2)"
    using process_cells_run[of m client ?ctx pre ?s1] by blast
  have s: "strip (content cell) \<noteq> []" "type cell = ''code''"
    using doc by (simp_all add: documented_def)
  have r': "raised client (cell_doc_request m (content cell) ?ctx) ?s2 = Some e"
    using r by simp
  have d: "generate_cell_doc m client (content cell) ?ctx ?s2 =
      (Inr (cell_doc_error m e), ?s2 @ [cell_doc_request m (content cell) ?ctx])"
    using s(1) r' by (cases m) (simp_all add: try_completion_raised)
  obtain out2 :: "('v, 'o) notebook_node list" and s4 where
    p2: "\<forall>nb. process_cells m client ?ctx post nb (?s2 @ [cell_doc_request m (content cell) ?ctx]) =
            (Inr (nb @ out2), s4)"
    using process_cells_run[of m client ?ctx post "?s2 @ [cell_doc_request m (content cell) ?ctx]"]
    by blast
  have "process_cells m client ?ctx ?cells [new_markdown_cell overview] ?s1 =
          (Inr (([new_markdown_cell overview] @ out1) @
                [new_markdown_cell (cell_doc_error m e), new_code_cell (content cell)] @ out2), s4)"
    using p1 p2 d s cell_doc_error_nonempty[of m e] by (simp add: process_cells_append)
  then have "fst (create_documented_notebook m read client src sent) =
          Inr (([new_markdown_cell overview] @ out1) @
                [new_markdown_cell (cell_doc_error m e), new_code_cell (content cell)] @ out2)"
    using ex ov by (simp add: create_documented_notebook_def)
  then show ?thesis by blast
qed

text \<open>The two outcomes of \<open>download_colab_notebook\<close>, by what the patterns find.\<close>

lemma download_colab_notebook_cases:
  "((\<forall>(lit, n) \<in> set patterns. search lit n colab_url = None) \<longrightarrow>
      download_colab_notebook get parse colab_url sent = (Inl not_found, sent))
   \<and> (patterns = pre @ (lit, n) # post \<and> (\<forall>(l, k) \<in> set pre. search l k colab_url = None)
        \<and> search lit n colab_url = Some file_id \<longrightarrow>
      download_colab_notebook get parse colab_url sent =
        (case accepted get parse sent (''https://drive.google.com/uc?id='' @ file_id) of
           Some nb \<Rightarrow> (Inr nb, sent @ [''https://drive.google.com/uc?id='' @ file_id])
         | None \<Rightarrow>
             (case accepted get parse (sent @ [''https://drive.google.com/uc?id='' @ file_id])
                     (''https://drive.google.com/uc?export=download&id='' @ file_id) of
                Some nb \<Rightarrow>
                  (Inr nb, sent @ [''https://drive.google.com/uc?id='' @ file_id,
                                   ''https://drive.google.com/uc?export=download&id='' @ file_id])
              | None \<Rightarrow>
                  (Inl unable, sent @ [''https://drive.google.com/uc?id='' @ file_id,
                                       ''https://drive.google.com/uc?export=download&id='' @ file_id]))))"
proof (intro conjI impI)
  assume "\<forall>(lit, n) \<in> set patterns. search lit n colab_url = None"
  then have "find_file_id patterns colab_url = None" by (simp add: find_file_id_None)
  then show "download_colab_notebook get parse colab_url sent = (Inl not_found, sent)"
    by (simp add: download_colab_notebook_def)
next
  assume a: "patterns = pre @ (lit, n) # post \<and> (\<forall>(l, k) \<in> set pre. search l k colab_url = None)
        \<and> search lit n colab_url = Some file_id"
  then have f: "find_file_id patterns colab_url = Some file_id"
    using find_file_id_first[of pre colab_url lit n file_id post] by simp
  then have "file_id \<noteq> []" by (rule find_file_id_patterns_nonempty)
  with f have "download_colab_notebook get parse colab_url sent =
      try_download get parse [''https://drive.google.com/uc?id='' @ file_id,
                              ''https://drive.google.com/uc?export=download&id='' @ file_id] sent"
    by (simp add: download_colab_notebook_def download_urls_def)
  then show "download_colab_notebook get parse colab_url sent =
        (case accepted get parse sent (''https://drive.google.com/uc?id='' @ file_id) of
           Some nb \<Rightarrow> (Inr nb, sent @ [''https://drive.google.com/uc?id='' @ file_id])
         | None \<Rightarrow>
             (case accepted get parse (sent @ [''https://drive.google.com/uc?id='' @ file_id])
                     (''https://drive.google.com/uc?export=download&id='' @ file_id) of
                Some nb \<Rightarrow>
                  (Inr nb, sent @ [''https://drive.google.com/uc?id='' @ file_id,
                                   ''https://drive.google.com/uc?export=download&id='' @ file_id])
              | None \<Rightarrow>
                  (Inl unable, sent @ [''https://drive.google.com/uc?id='' @ file_id,
                                       ''https://drive.google.com/uc?export=download&id='' @ file_id])))"
    by (simp only: try_download_two)
qed

section \<open>The claims\<close>

text \<open>
  C1, as amended. The output is the overview cell followed by a body in which every
  markdown cell of the input and every code cell with text left after \<open>strip()\<close> stands,
  with its kind and its text, in the order of the input; the code cells of the body are
  exactly those code cells, once each. The body is made of one group of cells per input
  cell, in order: for a code cell with text left after \<open>strip()\<close> the code cell, alone or
  after one commentary cell; for a markdown cell that cell; for a code cell that is empty
  after \<open>strip()\<close> and for a cell of any other kind nothing. The requests of the run are the
  overview request and one request per code cell with text left after \<open>strip()\<close>: none is
  sent for an empty code cell.
\<close>

theorem C1_kept_cells_in_order:
  assumes "extract_cells m read src = Inr cells"
  shows "\<exists>overview (body :: ('v, 'o) notebook_node list) sent'.
           create_documented_notebook m read client src sent =
             (Inr (new_markdown_cell overview # body), sent')
         \<and> subseq (map original (filter kept cells)) body
         \<and> filter (\<lambda>n. cell_type n = ''code'') body = map original (filter documented cells)
         \<and> (\<exists>groups. body = concat groups \<and> list_all2 emission cells groups)
         \<and> sent' = sent @ overview_request m (all_code cells) #
               map (\<lambda>c. cell_doc_request m (content c) (full_context cells))
                 (filter (\<lambda>c. type c = ''code'' \<and> strip (content c) \<noteq> []) cells)"
proof -
  let ?s1 = "sent @ [overview_request m (all_code cells)]"
  obtain overview and out :: "('v, 'o) notebook_node list" where
    r: "\<forall>nb. process_cells m client (full_context cells) cells nb ?s1 =
                  (Inr (nb @ out), sent @ overview_request m (all_code cells) # cell_requests m cells)"
       "subseq (map original (filter kept cells)) out"
       "filter (\<lambda>n. cell_type n = ''code'') out = map original (filter documented cells)"
       "create_documented_notebook m read client src sent =
             (Inr (new_markdown_cell overview # out),
              sent @ overview_request m (all_code cells) # cell_requests m cells)"
    using create_run[OF assms, of client sent] by blast
  obtain groups :: "('v, 'o) notebook_node list list" where
    g: "\<forall>nb. fst (process_cells m client (full_context cells) cells nb ?s1) = Inr (nb @ concat groups)"
       "list_all2 emission cells groups"
    using process_cells_groups[of m client "full_context cells" cells ?s1] by blast
  have "Inr ([] @ out) = (Inr ([] @ concat groups) :: exn + ('v, 'o) notebook_node list)"
    using r(1) g(1) by (metis fst_conv)
  then have o: "out = concat groups" by simp
  have c: "cell_requests m cells =
             map (\<lambda>c. cell_doc_request m (content c) (full_context cells))
                 (filter (\<lambda>c. type c = ''code'' \<and> strip (content c) \<noteq> []) cells)"
    by (simp add: cell_requests_def documented_def[abs_def])
  show ?thesis using r(2,3,4) g(2) o c by auto
qed

text \<open>
  The claim as stated fails on the input \<open>[code "", code "x=1", markdown "note"]\<close>: the
  empty code cell is not in the output.
\<close>

theorem C1_counterexample:
  "fst (create_documented_notebook Streamlit_app no_reader (scripted [''Overview'', ''Sets x''])
          (Notebook scenario) []) =
     Inr [new_markdown_cell ''Overview'', new_markdown_cell ''Sets x'', new_code_cell ''x=1'',
          new_markdown_cell ''note'']
   \<and> original \<lparr>type = ''code'', content = []\<rparr> \<notin>
       set [new_markdown_cell ''Overview'', new_markdown_cell ''Sets x'', new_code_cell ''x=1'',
          new_markdown_cell ''note'' :: (string, string) notebook_node]"
  by (simp add: run_defs original_def new_code_cell_def new_markdown_cell_def)

theorem C1_kept_cells_in_order_witness:
  "extract_cells Streamlit_app no_reader (Notebook scenario) = Inr (cell_dicts scenario)
   \<and> (\<exists>overview (body :: (string, string) notebook_node list) sent'.
         create_documented_notebook Streamlit_app no_reader (scripted [''Overview'', ''Sets x''])
           (Notebook scenario) [] = (Inr (new_markdown_cell overview # body), sent')
       \<and> subseq [new_code_cell ''x=1'', new_markdown_cell ''note''] body
       \<and> filter (\<lambda>n. cell_type n = ''code'') body = [new_code_cell ''x=1'']
       \<and> (\<exists>groups. body = concat groups \<and> list_all2 emission (cell_dicts scenario) groups)
       \<and> sent' = [overview_request Streamlit_app (all_code (cell_dicts scenario)),
                  cell_doc_request Streamlit_app ''x=1'' (full_context (cell_dicts scenario))])"
proof -
  have h: "extract_cells Streamlit_app no_reader (Notebook scenario) = Inr (cell_dicts scenario)"
    by simp
  have k: "map original (filter kept (cell_dicts scenario)) =
             [new_code_cell ''x=1'', new_markdown_cell ''note'' :: (string, string) notebook_node]"
    "map original (filter documented (cell_dicts scenario)) =
             [new_code_cell ''x=1'' :: (string, string) notebook_node]"
    by (simp_all add: cell_dicts_def scenario_def kept_def documented_def original_def strip_def isspace_def)
  have q: "[] @ overview_request Streamlit_app (all_code (cell_dicts scenario)) #
             map (\<lambda>c. cell_doc_request Streamlit_app (content c) (full_context (cell_dicts scenario)))
               (filter (\<lambda>c. type c = ''code'' \<and> strip (content c) \<noteq> []) (cell_dicts scenario)) =
           [overview_request Streamlit_app (all_code (cell_dicts scenario)),
            cell_doc_request Streamlit_app ''x=1'' (full_context (cell_dicts scenario))]"
    by (simp add: cell_dicts_def scenario_def strip_def isspace_def)
  show ?thesis
    using h C1_kept_cells_in_order[OF h, of "scripted [''Overview'', ''Sets x'']" "[]"]
    unfolding k q by blast
qed

text \<open>
  C2. For a code cell with text left after \<open>strip()\<close>, standing anywhere in the input, the
  output is: what the run has built for the cells before it, then one markdown cell
  holding the text \<open>generate_cell_doc\<close> returned for it if that text is not empty and
  nothing if it is empty, then the code cell, then what the loop emits for the cells after
  it.
\<close>

theorem C2_commentary:
  assumes "extract_cells m read src = Inr (pre @ cell # post)"
    and "type cell = ''code''" and "strip (content cell) \<noteq> []"
  shows "\<exists>overview (before :: ('v, 'o) notebook_node list) doc (after :: ('v, 'o) notebook_node list) s1 s2 s3 s4.
           get_notebook_overview m client (pre @ cell # post) sent = (Inr overview, s1)
         \<and> process_cells m client (full_context (pre @ cell # post)) pre [new_markdown_cell overview] s1 =
             (Inr before, s2)
         \<and> generate_cell_doc m client (content cell) (full_context (pre @ cell # post)) s2 = (Inr doc, s3)
         \<and> process_cells m client (full_context (pre @ cell # post)) post [] s3 = (Inr after, s4)
         \<and> create_documented_notebook m read client src sent =
             (Inr (before @ (if doc = [] then [] else [new_markdown_cell doc]) @
                   [new_code_cell (content cell)] @ after), s4)"
proof -
  let ?cells = "pre @ cell # post"
  let ?ctx = "full_context ?cells"
  obtain overview s1 where ov: "get_notebook_overview m client ?cells sent = (Inr overview, s1)"
    using get_notebook_overview_ok by blast
  obtain out1 :: "('v, 'o) notebook_node list" and s2 where
    p1: "\<forall>nb. process_cells m client ?ctx pre nb s1 = (Inr (nb @ out1), s2)"
    using process_cells_run[of m client ?ctx pre s1] by blast
  obtain doc s3 where d: "generate_cell_doc m client (content cell) ?ctx s2 = (Inr doc, s3)"
    using generate_cell_doc_ok[OF assms(3)] by blast
  obtain out2 :: "('v, 'o) notebook_node list" and s4 where
    p2: "\<forall>nb. process_cells m client ?ctx post nb s3 = (Inr (nb @ out2), s4)"
    using process_cells_run[of m client ?ctx post s3] by blast
  have "process_cells m client ?ctx ?cells [new_markdown_cell overview] s1 =
          (Inr (([new_markdown_cell overview] @ out1) @ (if doc = [] then [] else [new_markdown_cell doc]) @
                   [new_code_cell (content cell)] @ out2), s4)"
    using p1 p2 d assms(2,3) by (simp add: process_cells_append)
  then have "create_documented_notebook m read client src sent =
          (Inr (([new_markdown_cell overview] @ out1) @ (if doc = [] then [] else [new_markdown_cell doc]) @
                   [new_code_cell (content cell)] @ out2), s4)"
    using assms(1) ov by (simp add: create_documented_notebook_def)
  moreover have "process_cells m client ?ctx pre [new_markdown_cell overview] s1 =
      (Inr ([new_markdown_cell overview] @ out1), s2)" using p1 by blast
  moreover have "process_cells m client ?ctx post [] s3 = (Inr out2, s4)" using p2 by simp
  ultimately show ?thesis using ov d by blast
qed

theorem C2_commentary_witness:
  "\<exists>(before :: (string, string) notebook_node list) doc (after :: (string, string) notebook_node list) s.
     create_documented_notebook Streamlit_app no_reader (scripted [''Overview'', ''Sets x''])
       (Notebook scenario) [] =
     (Inr (before @ (if doc = [] then [] else [new_markdown_cell doc]) @ [new_code_cell ''x=1''] @ after), s)"
proof -
  have t: "type \<lparr>type = ''code'', content = ''x=1''\<rparr> = ''code''" by simp
  have c: "strip (content \<lparr>type = ''code'', content = ''x=1''\<rparr>) \<noteq> []" using strip_x1 by simp
  show ?thesis
    using C2_commentary[OF scenario_cells t c, of "scripted [''Overview'', ''Sets x'']" "[]"]
    by (simp only: cell.select_convs) blast
qed

text \<open>
  C3, as amended. The first cell of the output is a markdown cell holding the text
  \<open>get_notebook_overview\<close> returned, and it is emitted once: the rest of the output is what
  the loop emits for the cells. Its text is empty exactly when the service answers the
  overview request with a text that is empty after \<open>strip()\<close>; it is not empty when the call
  fails.
\<close>

theorem C3_first_cell:
  assumes "extract_cells m read src = Inr cells"
  shows "\<exists>overview (body :: ('v, 'o) notebook_node list) s1 s2.
           get_notebook_overview m client cells sent = (Inr overview, s1)
         \<and> process_cells m client (full_context cells) cells [] s1 = (Inr body, s2)
         \<and> create_documented_notebook m read client src sent =
             (Inr (new_markdown_cell overview # body), s2)
         \<and> (overview = [] \<longleftrightarrow>
              (\<exists>text rest. client sent (overview_request m (all_code cells)) = Inr (Some text # rest)
                 \<and> strip text = []))"
proof -
  obtain overview and out :: "('v, 'o) notebook_node list" where
    r: "get_notebook_overview m client cells sent =
             (Inr overview, sent @ [overview_request m (all_code cells)])"
       "\<forall>nb. process_cells m client (full_context cells) cells nb
                    (sent @ [overview_request m (all_code cells)]) =
                  (Inr (nb @ out), sent @ overview_request m (all_code cells) # cell_requests m cells)"
       "create_documented_notebook m read client src sent =
             (Inr (new_markdown_cell overview # out),
              sent @ overview_request m (all_code cells) # cell_requests m cells)"
    using create_run[OF assms, of client sent] by blast
  have "Inr overview = fst (get_notebook_overview m client cells sent)" using r(1) by simp
  then have "overview = (case raised client (overview_request m (all_code cells)) sent of
            Some e \<Rightarrow> overview_error m e
          | None \<Rightarrow> (case client sent (overview_request m (all_code cells)) of Inr (Some text # rest) \<Rightarrow> strip text | _ \<Rightarrow> []))"
    by (simp add: get_notebook_overview_def try_completion_text)
  then have e: "overview = [] \<longleftrightarrow>
              (\<exists>text rest. client sent (overview_request m (all_code cells)) = Inr (Some text # rest)
                 \<and> strip text = [])"
    using raised_None[of client "overview_request m (all_code cells)" sent]
    by (cases "raised client (overview_request m (all_code cells)) sent")
       (auto simp: overview_error_nonempty)
  have "process_cells m client (full_context cells) cells [] (sent @ [overview_request m (all_code cells)]) =
          (Inr out, sent @ overview_request m (all_code cells) # cell_requests m cells)"
    using r(2) by simp
  with r(1,3) e show ?thesis by blast
qed

text \<open>The claim as stated fails when the service answers the overview request with blanks.\<close>

theorem C3_counterexample:
  "fst (create_documented_notebook Streamlit_app no_reader (scripted [''   '', ''Sets x''])
          (Notebook scenario) []) =
     Inr [new_markdown_cell [], new_markdown_cell ''Sets x'', new_code_cell ''x=1'',
          new_markdown_cell ''note'']"
  by (simp add: run_defs)

theorem C3_first_cell_witness:
  "\<exists>overview (body :: (string, string) notebook_node list) s.
     create_documented_notebook Streamlit_app no_reader (scripted [''Overview'', ''Sets x''])
       (Notebook scenario) [] = (Inr (new_markdown_cell overview # body), s)"
  using C3_first_cell[OF scenario_cells, of "scripted [''Overview'', ''Sets x'']" "[]"] by blast

text \<open>
  C4. In \<open>streamlit_app.py\<close> the annotator returns the empty string for a blank cell and
  sends nothing (\<open>generate_cell_doc_streamlit_blank\<close>). In \<open>app.py\<close> it has no such check: for
  the cell of three spaces, which is empty after \<open>strip()\<close>, it sends its request and returns
  what the service answers.
\<close>

theorem C4_app_annotator_calls_on_blank:
  "generate_cell_doc App (scripted [''Imports the libraries'']) ''   '' ctx [] =
     (Inr ''Imports the libraries'', [cell_doc_request App ''   '' ctx])
   \<and> strip ''   '' = []"
  by (simp add: try_completion_def create_def message_text_def scripted_def strip_def isspace_def)

text \<open>
  C5, as amended. Both context strings hold the content of every code cell, in the order of
  the cells, an empty code cell contributing an empty string: appending a code cell to cells
  that hold a code cell already appends a separator and its content. The separator is one
  newline in \<open>all_code\<close>, the string of the overview request, and a blank line (two newlines)
  in \<open>full_context\<close>, the string of the per-cell requests of a run.
\<close>

theorem C5_contexts:
  "all_code [] = [] \<and> full_context [] = []
   \<and> all_code (cells @ [c]) =
       (if type c \<noteq> ''code'' then all_code cells
        else if list_ex (\<lambda>cell. type cell = ''code'') cells
          then all_code cells @ ''\<newline>'' @ content c
        else content c)
   \<and> full_context (cells @ [c]) =
       (if type c \<noteq> ''code'' then full_context cells
        else if list_ex (\<lambda>cell. type cell = ''code'') cells
          then full_context cells @ ''\<newline>\<newline>'' @ content c
        else content c)
   \<and> snd (get_notebook_overview m client cells sent) = sent @ [overview_request m (all_code cells)]
   \<and> (extract_cells m read src = Inr cells \<longrightarrow>
        snd (create_documented_notebook m read client src sent) =
          sent @ overview_request m (all_code cells) #
            map (\<lambda>c. cell_doc_request m (content c) (full_context cells)) (filter documented cells))"
proof (intro conjI impI)
  show "all_code [] = []" "full_context [] = []"
    by (simp_all add: all_code_def full_context_def)
  show "all_code (cells @ [c]) =
       (if type c \<noteq> ''code'' then all_code cells
        else if list_ex (\<lambda>cell. type cell = ''code'') cells
          then all_code cells @ ''\<newline>'' @ content c
        else content c)"
    unfolding all_code_def code_contents by (rule join_code_snoc)
  show "full_context (cells @ [c]) =
       (if type c \<noteq> ''code'' then full_context cells
        else if list_ex (\<lambda>cell. type cell = ''code'') cells
          then full_context cells @ ''\<newline>\<newline>'' @ content c
        else content c)"
    unfolding full_context_def code_contents by (rule join_code_snoc)
  show "snd (get_notebook_overview m client cells sent) = sent @ [overview_request m (all_code cells)]"
    using get_notebook_overview_ok[of m client cells sent] by auto
  show "snd (create_documented_notebook m read client src sent) =
          sent @ overview_request m (all_code cells) #
            map (\<lambda>c. cell_doc_request m (content c) (full_context cells)) (filter documented cells)"
    if "extract_cells m read src = Inr cells"
    using create_run[OF that, of client sent] by (auto simp: cell_requests_def)
qed

text \<open>
  The claim as stated fails for \<open>all_code\<close>: the contents \<open>import os\<close> and \<open>x=1\<close> are joined by
  one newline in the overview request, not by a blank line.
\<close>

theorem C5_counterexample:
  "all_code [\<lparr>type = ''code'', content = ''import os''\<rparr>, \<lparr>type = ''code'', content = []\<rparr>,
             \<lparr>type = ''code'', content = ''x=1''\<rparr>] = ''import os\<newline>\<newline>x=1''
   \<and> full_context [\<lparr>type = ''code'', content = ''import os''\<rparr>, \<lparr>type = ''code'', content = []\<rparr>,
             \<lparr>type = ''code'', content = ''x=1''\<rparr>] = ''import os\<newline>\<newline>\<newline>\<newline>x=1''
   \<and> snd (get_notebook_overview Streamlit_app (scripted [])
             [\<lparr>type = ''code'', content = ''import os''\<rparr>, \<lparr>type = ''code'', content = ''x=1''\<rparr>] []) =
       [overview_request Streamlit_app ''import os\<newline>x=1'']
   \<and> ''import os\<newline>x=1'' \<noteq> ''import os\<newline>\<newline>x=1''"
  by (simp add: all_code_def full_context_def get_notebook_overview_def try_completion_def create_def
        scripted_def)

theorem C5_contexts_witness:
  "all_code ([\<lparr>type = ''code'', content = ''import os''\<rparr>, \<lparr>type = ''code'', content = []\<rparr>] @
             [\<lparr>type = ''code'', content = ''x=1''\<rparr>]) =
     all_code [\<lparr>type = ''code'', content = ''import os''\<rparr>, \<lparr>type = ''code'', content = []\<rparr>] @
     ''\<newline>x=1''
   \<and> full_context ([\<lparr>type = ''code'', content = ''import os''\<rparr>, \<lparr>type = ''code'', content = []\<rparr>] @
             [\<lparr>type = ''code'', content = ''x=1''\<rparr>]) =
     full_context [\<lparr>type = ''code'', content = ''import os''\<rparr>, \<lparr>type = ''code'', content = []\<rparr>] @
     ''\<newline>\<newline>x=1''
   \<and> snd (create_documented_notebook Streamlit_app no_reader (scripted []) (Notebook scenario) []) =
       [overview_request Streamlit_app (all_code (cell_dicts scenario)),
        cell_doc_request Streamlit_app ''x=1'' (full_context (cell_dicts scenario))]"
proof -
  have h: "extract_cells Streamlit_app no_reader (Notebook scenario) = Inr (cell_dicts scenario)"
    by simp
  have d: "filter documented (cell_dicts scenario) = [\<lparr>type = ''code'', content = ''x=1''\<rparr>]"
    by (simp add: cell_dicts_def scenario_def documented_def strip_def isspace_def)
  have "snd (create_documented_notebook Streamlit_app no_reader (scripted []) (Notebook scenario) []) =
       [overview_request Streamlit_app (all_code (cell_dicts scenario)),
        cell_doc_request Streamlit_app ''x=1'' (full_context (cell_dicts scenario))]"
    using C5_contexts[of "cell_dicts scenario" "\<lparr>type = ''code'', content = ''x=1''\<rparr>" Streamlit_app
        "scripted []" "[]" no_reader "Notebook scenario"] h
    unfolding d by simp
  then show ?thesis
    using C5_contexts[of "[\<lparr>type = ''code'', content = ''import os''\<rparr>, \<lparr>type = ''code'', content = []\<rparr>]"
        "\<lparr>type = ''code'', content = ''x=1''\<rparr>" App "scripted []" "[]" no_reader "Str []"]
    by simp
qed

text \<open>
  C6. Whatever the service does, \<open>get_notebook_overview\<close> and \<open>generate_cell_doc\<close> return a text
  and raise nothing; an exception of the \<open>try\<close> block becomes the text of the \<open>except\<close> branch.
  A run whose notebook could be read never raises and sends the overview request and every
  per-cell request; when the overview call fails, the first cell holds the overview marker
  and the per-cell requests are sent all the same. The text of an \<open>except\<close> branch is never
  empty: it starts with \<open># Jupyter Notebook Documentation\<close>, a blank line and
  \<open>*Error generating overview\<close> for the overview, and with \<open>*Error generating documentation\<close>
  for a cell. So when the call for a code cell fails, the run goes on and the output holds a
  markdown cell with that text right before the code cell.
\<close>

theorem C6_errors_become_text:
  "(\<exists>text. get_notebook_overview m client cells sent =
            (Inr text, sent @ [overview_request m (all_code cells)]))
   \<and> (\<exists>doc s. generate_cell_doc m client code ctx sent = (Inr doc, s))
   \<and> (raised client (overview_request m (all_code cells)) sent = Some e \<longrightarrow>
        fst (get_notebook_overview m client cells sent) = Inr (overview_error m e)
        \<and> prefix ''# Jupyter Notebook Documentation\<newline>\<newline>*Error generating overview''
             (overview_error m e))
   \<and> (strip code \<noteq> [] \<and> raised client (cell_doc_request m code ctx) sent = Some e \<longrightarrow>
        generate_cell_doc m client code ctx sent =
          (Inr (cell_doc_error m e), sent @ [cell_doc_request m code ctx])
        \<and> prefix ''*Error generating documentation'' (cell_doc_error m e))
   \<and> (extract_cells m read src = Inr cells \<longrightarrow>
        (\<exists>nb :: ('v, 'o) notebook_node list. create_documented_notebook m read client src sent =
           (Inr nb, sent @ overview_request m (all_code cells) # cell_requests m cells)))
   \<and> (extract_cells m read src = Inr cells \<and>
        raised client (overview_request m (all_code cells)) sent = Some e \<longrightarrow>
        (\<exists>body :: ('v, 'o) notebook_node list. create_documented_notebook m read client src sent =
           (Inr (new_markdown_cell (overview_error m e) # body),
            sent @ overview_request m (all_code cells) # cell_requests m cells)))
   \<and> (extract_cells m read src = Inr (pre @ cell # post) \<and> documented cell \<and>
        raised client (cell_doc_request m (content cell) (full_context (pre @ cell # post)))
          (sent @ overview_request m (all_code (pre @ cell # post)) #
             map (\<lambda>c. cell_doc_request m (content c) (full_context (pre @ cell # post)))
               (filter documented pre)) = Some e \<longrightarrow>
        (\<exists>before after :: ('v, 'o) notebook_node list.
           fst (create_documented_notebook m read client src sent) =
             Inr (before @ [new_markdown_cell (cell_doc_error m e), new_code_cell (content cell)] @
                  after)))"
proof (intro conjI impI)
  show "\<exists>text. get_notebook_overview m client cells sent =
            (Inr text, sent @ [overview_request m (all_code cells)])"
    by (rule get_notebook_overview_ok)
  show "\<exists>doc s. generate_cell_doc m client code ctx sent = (Inr doc, s)"
    by (rule generate_cell_doc_total)
  show "fst (get_notebook_overview m client cells sent) = Inr (overview_error m e)"
    if "raised client (overview_request m (all_code cells)) sent = Some e"
    using that by (simp add: get_notebook_overview_def try_completion_raised)
  show "prefix ''# Jupyter Notebook Documentation\<newline>\<newline>*Error generating overview''
             (overview_error m e)"
    by (rule overview_error_prefix)
  show "generate_cell_doc m client code ctx sent =
          (Inr (cell_doc_error m e), sent @ [cell_doc_request m code ctx])"
    if "strip code \<noteq> [] \<and> raised client (cell_doc_request m code ctx) sent = Some e"
    using that by (cases m) (simp_all add: try_completion_raised)
  show "prefix ''*Error generating documentation'' (cell_doc_error m e)"
    by (rule cell_doc_error_prefix)
  show "\<exists>nb :: ('v, 'o) notebook_node list. create_documented_notebook m read client src sent =
           (Inr nb, sent @ overview_request m (all_code cells) # cell_requests m cells)"
    if "extract_cells m read src = Inr cells"
    using create_run[OF that, of client sent] by blast
  show "\<exists>body :: ('v, 'o) notebook_node list. create_documented_notebook m read client src sent =
           (Inr (new_markdown_cell (overview_error m e) # body),
            sent @ overview_request m (all_code cells) # cell_requests m cells)"
    if h: "extract_cells m read src = Inr cells \<and>
        raised client (overview_request m (all_code cells)) sent = Some e"
  proof -
    have "get_notebook_overview m client cells sent =
            (Inr (overview_error m e), sent @ [overview_request m (all_code cells)])"
      using h by (simp add: get_notebook_overview_def try_completion_raised)
    then show ?thesis using create_run[of m read src cells client sent] h by auto
  qed
  show "\<exists>before after :: ('v, 'o) notebook_node list.
           fst (create_documented_notebook m read client src sent) =
             Inr (before @ [new_markdown_cell (cell_doc_error m e), new_code_cell (content cell)] @
                  after)"
    if h: "extract_cells m read src = Inr (pre @ cell # post) \<and> documented cell \<and>
        raised client (cell_doc_request m (content cell) (full_context (pre @ cell # post)))
          (sent @ overview_request m (all_code (pre @ cell # post)) #
             map (\<lambda>c. cell_doc_request m (content c) (full_context (pre @ cell # post)))
               (filter documented pre)) = Some e"
    using failed_annotation_emitted[of m read src pre cell post client sent e] h by blast
qed

theorem C6_errors_become_text_witness:
  "(\<exists>body :: (string, string) notebook_node list.
     create_documented_notebook App scenario_reader (scripted []) (Str ''test2.ipynb'') [] =
       (Inr (new_markdown_cell ''# Jupyter Notebook Documentation\<newline>\<newline>*Error generating overview*'' # body),
        overview_request App (all_code (cell_dicts scenario)) # cell_requests App (cell_dicts scenario)))
   \<and> (\<exists>before after :: (string, string) notebook_node list.
        fst (create_documented_notebook App scenario_reader (scripted []) (Str ''test2.ipynb'') []) =
          Inr (before @ [new_markdown_cell ''*Error generating documentation*'', new_code_cell ''x=1''] @
               after))"
proof -
  let ?e = "Exn ''APIConnectionError'' ''Connection error.''"
  have h: "extract_cells App scenario_reader (Str ''test2.ipynb'') = Inr (cell_dicts scenario)"
    by (simp add: scenario_reader_def)
  have h2: "extract_cells App scenario_reader (Str ''test2.ipynb'') =
      Inr ([\<lparr>type = ''code'', content = []\<rparr>] @ \<lparr>type = ''code'', content = ''x=1''\<rparr> #
           [\<lparr>type = ''markdown'', content = ''note''\<rparr>])"
    by (simp add: scenario_reader_def cell_dicts_def scenario_def)
  have d: "documented \<lparr>type = ''code'', content = ''x=1''\<rparr>"
    by (simp add: documented_def strip_def isspace_def)
  have r: "raised (scripted []) req s = Some ?e" for req s
    by (simp add: raised_def scripted_def)
  note T = C6_errors_become_text[where m = App and client = "scripted []"
      and cells = "cell_dicts scenario" and sent = "[]" and code = "[]" and ctx = "[]" and e = ?e
      and read = scenario_reader and src = "Str ''test2.ipynb''"
      and pre = "[\<lparr>type = ''code'', content = []\<rparr>]"
      and cell = "\<lparr>type = ''code'', content = ''x=1''\<rparr>"
      and post = "[\<lparr>type = ''markdown'', content = ''note''\<rparr>]"]
  from T h r have "\<exists>body :: (string, string) notebook_node list.
     create_documented_notebook App scenario_reader (scripted []) (Str ''test2.ipynb'') [] =
       (Inr (new_markdown_cell (overview_error App ?e) # body),
        [] @ overview_request App (all_code (cell_dicts scenario)) # cell_requests App (cell_dicts scenario))"
    by blast
  then have A: "\<exists>body :: (string, string) notebook_node list.
     create_documented_notebook App scenario_reader (scripted []) (Str ''test2.ipynb'') [] =
       (Inr (new_markdown_cell ''# Jupyter Notebook Documentation\<newline>\<newline>*Error generating overview*'' # body),
        overview_request App (all_code (cell_dicts scenario)) # cell_requests App (cell_dicts scenario))"
    by simp
  from T h2 d r have "\<exists>before after :: (string, string) notebook_node list.
        fst (create_documented_notebook App scenario_reader (scripted []) (Str ''test2.ipynb'') []) =
          Inr (before @ [new_markdown_cell (cell_doc_error App ?e),
                         new_code_cell (content \<lparr>type = ''code'', content = ''x=1''\<rparr>)] @ after)"
    by blast
  then have B: "\<exists>before after :: (string, string) notebook_node list.
        fst (create_documented_notebook App scenario_reader (scripted []) (Str ''test2.ipynb'') []) =
          Inr (before @ [new_markdown_cell ''*Error generating documentation*'', new_code_cell ''x=1''] @
               after)"
    by simp
  from A B show ?thesis by blast
qed

text \<open>
  C7, as amended. When a generation call fails, the substituted text is a function of the
  module and of the text of the exception. In \<open>app.py\<close> it is fixed: the heading followed by
  \<open>*Error generating overview*\<close>, and \<open>*Error generating documentation*\<close>. In
  \<open>streamlit_app.py\<close> it is the same heading and marker with a colon and \<open>str(e)\<close> before the
  closing star, so it varies with the exception.
\<close>

theorem C7_markers:
  "(raised client (overview_request m (all_code cells)) sent = Some e \<longrightarrow>
      fst (get_notebook_overview m client cells sent) =
        Inr (case m of
               App \<Rightarrow> ''# Jupyter Notebook Documentation\<newline>\<newline>*Error generating overview*''
             | Streamlit_app \<Rightarrow>
                 ''# Jupyter Notebook Documentation\<newline>\<newline>*Error generating overview: '' @ str e @ ''*''))
   \<and> ((m = App \<or> strip code \<noteq> []) \<and> raised client (cell_doc_request m code ctx) sent = Some e \<longrightarrow>
      fst (generate_cell_doc m client code ctx sent) =
        Inr (case m of
               App \<Rightarrow> ''*Error generating documentation*''
             | Streamlit_app \<Rightarrow> ''*Error generating documentation: '' @ str e @ ''*''))"
  by (cases m) (simp_all add: get_notebook_overview_def try_completion_raised)

text \<open>
  The claim as stated fails in \<open>streamlit_app.py\<close>, where two different errors give two
  different markers; and in \<open>app.py\<close> a service that answers with the marker's own text gives
  what a failed call gives.
\<close>

theorem C7_counterexample:
  "fst (generate_cell_doc Streamlit_app (raising (Exn ''APIConnectionError'' ''Connection error.''))
          ''x=1'' ''x=1'' []) =
     Inr ''*Error generating documentation: Connection error.*''
   \<and> fst (generate_cell_doc Streamlit_app (raising (Exn ''RateLimitError'' ''Rate limit reached''))
          ''x=1'' ''x=1'' []) =
     Inr ''*Error generating documentation: Rate limit reached*''
   \<and> fst (generate_cell_doc Streamlit_app (raising (Exn ''APIConnectionError'' ''Connection error.''))
          ''x=1'' ''x=1'' []) \<noteq>
     fst (generate_cell_doc Streamlit_app (raising (Exn ''RateLimitError'' ''Rate limit reached''))
          ''x=1'' ''x=1'' [])
   \<and> fst (generate_cell_doc App (scripted [''*Error generating documentation*'']) ''x=1'' ''x=1'' []) =
     fst (generate_cell_doc App (raising (Exn ''APIConnectionError'' ''Connection error.''))
          ''x=1'' ''x=1'' [])"
  by (simp add: try_completion_def create_def message_text_def raising_def scripted_def strip_def isspace_def)

theorem C7_markers_witness:
  "fst (get_notebook_overview Streamlit_app (raising (Exn ''RateLimitError'' ''Rate limit reached''))
          (cell_dicts scenario) []) =
     Inr ''# Jupyter Notebook Documentation\<newline>\<newline>*Error generating overview: Rate limit reached*''
   \<and> fst (generate_cell_doc App (raising (Exn ''RateLimitError'' ''Rate limit reached'')) ''x=1'' ''x=1'' []) =
     Inr ''*Error generating documentation*''"
proof -
  have r: "raised (raising (Exn ''RateLimitError'' ''Rate limit reached'')) req [] =
        Some (Exn ''RateLimitError'' ''Rate limit reached'')" for req
    by (simp add: raised_def raising_def)
  show ?thesis
    using C7_markers[of "raising (Exn ''RateLimitError'' ''Rate limit reached'')" Streamlit_app
            "cell_dicts scenario" "[]" "Exn ''RateLimitError'' ''Rate limit reached''" "''x=1''" "''x=1''"]
          C7_markers[of "raising (Exn ''RateLimitError'' ''Rate limit reached'')" App
            "cell_dicts scenario" "[]" "Exn ''RateLimitError'' ''Rate limit reached''" "''x=1''" "''x=1''"]
          r
    by simp
qed

text \<open>
  C8. One run sends the overview request first and then one request for each code cell
  with text left after \<open>strip()\<close>, in the order of the cells, and nothing else: that is
  \<open>1 +\<close> the number of such cells. Each call is made with all earlier requests already
  sent, since the list of sent requests is threaded through the calls.
\<close>

theorem C8_calls:
  assumes "extract_cells m read src = Inr cells"
  shows "snd (create_documented_notebook m read client src sent) =
           sent @ overview_request m (all_code cells) # cell_requests m cells
       \<and> length (snd (create_documented_notebook m read client src sent)) =
           length sent + (1 + length (filter documented cells))"
proof -
  have "snd (create_documented_notebook m read client src sent) =
           sent @ overview_request m (all_code cells) # cell_requests m cells"
    using create_run[OF assms, of client sent] by auto
  then show ?thesis by (simp add: cell_requests_def)
qed


theorem C8_calls_witness:
  "length (snd (create_documented_notebook Streamlit_app no_reader (scripted [''Overview'', ''Sets x''])
       (Notebook scenario) [])) = 2"
proof -
  have d: "filter documented ([\<lparr>type = ''code'', content = []\<rparr>] @ \<lparr>type = ''code'', content = ''x=1''\<rparr> #
          [\<lparr>type = ''markdown'', content = ''note''\<rparr>]) = [\<lparr>type = ''code'', content = ''x=1''\<rparr>]"
    by (simp add: documented_def strip_def isspace_def)
  have "length (snd (create_documented_notebook Streamlit_app no_reader (scripted [''Overview'', ''Sets x''])
       (Notebook scenario) [])) = length ([] :: request list) + (1 + length (filter documented
         ([\<lparr>type = ''code'', content = []\<rparr>] @ \<lparr>type = ''code'', content = ''x=1''\<rparr> #
          [\<lparr>type = ''markdown'', content = ''note''\<rparr>])))"
    using C8_calls[OF scenario_cells, of "scripted [''Overview'', ''Sets x'']" "[]"] by (rule conjunct2)
  then show ?thesis unfolding d by simp
qed

text \<open>
  C9. When none of the three patterns matches the URL, \<open>download_colab_notebook\<close> raises the
  \<open>ValueError\<close> of the missing file id and requests nothing. When a pattern matches and none
  before it in the list does, its group is the file id: the first download URL is requested
  and its notebook returned if the response has status 200 and parses; otherwise the second
  is requested in the same way; otherwise the \<open>ValueError\<close> of the failed download is raised.
  The two errors are given with their texts: \<open>Could not extract file ID from the provided
  Colab URL\<close>, and the text that starts \<open>Unable to download the notebook\<close> and asks to make sure
  the notebook is publicly accessible.
\<close>

theorem C9_download:
  \<open>((\<forall>(lit, n) \<in> set patterns. search lit n colab_url = None) \<longrightarrow>
      download_colab_notebook get parse colab_url sent = (Inl (Exn ''ValueError'' ''Could not extract file ID from the provided Colab URL''), sent))
   \<and> (patterns = pre @ (lit, n) # post \<and> (\<forall>(l, k) \<in> set pre. search l k colab_url = None)
        \<and> search lit n colab_url = Some file_id \<longrightarrow>
      download_colab_notebook get parse colab_url sent =
        (case accepted get parse sent (''https://drive.google.com/uc?id='' @ file_id) of
           Some nb \<Rightarrow> (Inr nb, sent @ [''https://drive.google.com/uc?id='' @ file_id])
         | None \<Rightarrow>
             (case accepted get parse (sent @ [''https://drive.google.com/uc?id='' @ file_id])
                     (''https://drive.google.com/uc?export=download&id='' @ file_id) of
                Some nb \<Rightarrow>
                  (Inr nb, sent @ [''https://drive.google.com/uc?id='' @ file_id,
                                   ''https://drive.google.com/uc?export=download&id='' @ file_id])
              | None \<Rightarrow>
                  (Inl (Exn ''ValueError''
                      (''Unable to download the notebook. This might be because:\<newline>'' @
                       ''    1. The notebook isn'' @ [CHR 0x27] @ ''t publicly shared\<newline>'' @
                       ''    2. The URL format is not supported\<newline>'' @
                       ''    3. Google Drive access restrictions\<newline>'' @
                       ''    \<newline>'' @
                       ''    Please make sure the notebook is publicly accessible and try again.'')), sent @ [''https://drive.google.com/uc?id='' @ file_id,
                                       ''https://drive.google.com/uc?export=download&id='' @ file_id]))))\<close>
  using download_colab_notebook_cases[of colab_url get parse sent pre lit n post file_id]
  unfolding not_found_def unable_def .

theorem C9_download_witness:
  \<open>download_colab_notebook drive parse_example ''https://example.com/notebook'' [] =
     (Inl (Exn ''ValueError'' ''Could not extract file ID from the provided Colab URL''), [])
   \<and> download_colab_notebook drive parse_example ''https://colab.research.google.com/drive/1abc'' [] =
       (Inr [], [''https://drive.google.com/uc?id=1abc'',
                 ''https://drive.google.com/uc?export=download&id=1abc''])
   \<and> download_colab_notebook offline parse_example ''https://colab.research.google.com/drive/1abc'' [] =
       (Inl (Exn ''ValueError''
            (''Unable to download the notebook. This might be because:\<newline>'' @
             ''    1. The notebook isn'' @ [CHR 0x27] @ ''t publicly shared\<newline>'' @
             ''    2. The URL format is not supported\<newline>'' @
             ''    3. Google Drive access restrictions\<newline>'' @
             ''    \<newline>'' @
             ''    Please make sure the notebook is publicly accessible and try again.'')),
        [''https://drive.google.com/uc?id=1abc'',
         ''https://drive.google.com/uc?export=download&id=1abc''])\<close>
proof -
  have none: "\<forall>(lit, n) \<in> set patterns. search lit n ''https://example.com/notebook'' = None"
    using other_url_no_match by (simp add: patterns_def)
  have split: "patterns = [(''/d/'', 1)] @ (''drive/'', 1) # [(''/'', 20)]"
    by (simp add: patterns_def)
  have before: "\<forall>(l, k) \<in> set [(''/d/'', 1 :: nat)].
      search l k ''https://colab.research.google.com/drive/1abc'' = None"
    using colab_url_d by simp
  have a1: "accepted drive parse_example [] ''https://drive.google.com/uc?id=1abc'' = None"
    by (simp add: accepted_def drive_def)
  have a2: "accepted drive parse_example [''https://drive.google.com/uc?id=1abc'']
              ''https://drive.google.com/uc?export=download&id=1abc'' = Some []"
    by (simp add: accepted_def drive_def parse_example_def)
  have off: "accepted offline parse_example s u = None" for s u
    by (simp add: accepted_def offline_def)
  have "download_colab_notebook drive parse_example ''https://example.com/notebook'' [] =
     (Inl (Exn ''ValueError'' ''Could not extract file ID from the provided Colab URL''), [])"
    using C9_download[of "''https://example.com/notebook''" drive parse_example "[]"] none by blast
  moreover have "download_colab_notebook drive parse_example
          ''https://colab.research.google.com/drive/1abc'' [] =
       (Inr [], [''https://drive.google.com/uc?id=1abc'',
                 ''https://drive.google.com/uc?export=download&id=1abc''])"
    using C9_download[of "''https://colab.research.google.com/drive/1abc''" drive parse_example "[]"
        "[(''/d/'', 1)]" "''drive/''" 1 "[(''/'', 20)]" "''1abc''"] split before colab_url_drive a1 a2
    by simp
  moreover have \<open>download_colab_notebook offline parse_example
          ''https://colab.research.google.com/drive/1abc'' [] =
       (Inl (Exn ''ValueError''
            (''Unable to download the notebook. This might be because:\<newline>'' @
             ''    1. The notebook isn'' @ [CHR 0x27] @ ''t publicly shared\<newline>'' @
             ''    2. The URL format is not supported\<newline>'' @
             ''    3. Google Drive access restrictions\<newline>'' @
             ''    \<newline>'' @
             ''    Please make sure the notebook is publicly accessible and try again.'')),
        [''https://drive.google.com/uc?id=1abc'',
         ''https://drive.google.com/uc?export=download&id=1abc''])\<close>
    using C9_download[of "''https://colab.research.google.com/drive/1abc''" offline parse_example "[]"
        "[(''/d/'', 1)]" "''drive/''" 1 "[(''/'', 20)]" "''1abc''"] split before colab_url_drive off
    by simp
  ultimately show ?thesis by blast
qed

text \<open>
  C10. Two notebooks whose cells agree in kind and source text give the same run, whatever
  their metadata, outputs and execution counts; and every cell of an output is the cell one
  of the two constructors builds from its source text alone: empty metadata, and for a code
  cell no outputs and no execution count.
\<close>

theorem C10_only_kind_and_source:
  "(map (\<lambda>n. (cell_type n, source n)) nb = map (\<lambda>n. (cell_type n, source n)) nb' \<longrightarrow>
      create_documented_notebook m read client (Notebook nb) sent =
      create_documented_notebook m read client (Notebook nb') sent
    \<and> create_documented_notebook m (\<lambda>s. Inr nb) client (Str s) sent =
      create_documented_notebook m (\<lambda>s. Inr nb') client (Str s) sent)
   \<and> (create_documented_notebook m read client src sent = (Inr out, sent') \<longrightarrow>
        (\<forall>n \<in> set out. (n = new_markdown_cell (source n) \<or> n = new_code_cell (source n))
             \<and> metadata n = []
             \<and> (outputs n = None \<or> outputs n = Some [])
             \<and> (execution_count n = None \<or> execution_count n = Some None)))"
proof (intro conjI impI)
  assume "map (\<lambda>n. (cell_type n, source n)) nb = map (\<lambda>n. (cell_type n, source n)) nb'"
  then have c: "cell_dicts nb = cell_dicts nb'" by (rule cell_dicts_cong)
  show "create_documented_notebook m read client (Notebook nb) sent =
      create_documented_notebook m read client (Notebook nb') sent"
    by (cases m) (simp_all add: create_documented_notebook_def c)
  show "create_documented_notebook m (\<lambda>s. Inr nb) client (Str s) sent =
      create_documented_notebook m (\<lambda>s. Inr nb') client (Str s) sent"
    by (cases m) (simp_all add: create_documented_notebook_def c)
next
  assume r: "create_documented_notebook m read client src sent = (Inr out, sent')"
  then obtain cells where e: "extract_cells m read src = Inr cells"
    by (auto simp: create_documented_notebook_def split: sum.splits)
  obtain overview s1 where ov: "get_notebook_overview m client cells sent = (Inr overview, s1)"
    using get_notebook_overview_ok by blast
  have "process_cells m client (full_context cells) cells [new_markdown_cell overview] s1 = (Inr out, sent')"
    using r e ov by (simp add: create_documented_notebook_def)
  moreover have "list_all (\<lambda>n. n = new_markdown_cell (source n) \<or> n = new_code_cell (source n))
      [new_markdown_cell overview :: ('a, 'b) notebook_node]" by simp
  ultimately have "list_all (\<lambda>n. n = new_markdown_cell (source n) \<or> n = new_code_cell (source n)) out"
    by (rule process_cells_new)
  then have a: "\<forall>n \<in> set out. n = new_markdown_cell (source n) \<or> n = new_code_cell (source n)"
    by (simp add: list_all_iff)
  show "\<forall>n \<in> set out. (n = new_markdown_cell (source n) \<or> n = new_code_cell (source n))
             \<and> metadata n = []
             \<and> (outputs n = None \<or> outputs n = Some [])
             \<and> (execution_count n = None \<or> execution_count n = Some None)"
  proof
    fix n assume "n \<in> set out"
    with a have "n = new_markdown_cell (source n) \<or> n = new_code_cell (source n)" by blast
    then show "(n = new_markdown_cell (source n) \<or> n = new_code_cell (source n))
             \<and> metadata n = []
             \<and> (outputs n = None \<or> outputs n = Some [])
             \<and> (execution_count n = None \<or> execution_count n = Some None)"
    proof
      assume m: "n = new_markdown_cell (source n)"
      have "metadata (new_markdown_cell (source n) :: ('a, 'b) notebook_node) = []"
        "outputs (new_markdown_cell (source n) :: ('a, 'b) notebook_node) = None"
        "execution_count (new_markdown_cell (source n) :: ('a, 'b) notebook_node) = None"
        by (simp_all add: new_markdown_cell_def)
      with m show ?thesis by metis
    next
      assume c: "n = new_code_cell (source n)"
      have "metadata (new_code_cell (source n) :: ('a, 'b) notebook_node) = []"
        "outputs (new_code_cell (source n) :: ('a, 'b) notebook_node) = Some []"
        "execution_count (new_code_cell (source n) :: ('a, 'b) notebook_node) = Some None"
        by (simp_all add: new_code_cell_def)
      with c show ?thesis by metis
    qed
  qed
qed

theorem C10_only_kind_and_source_witness:
  "create_documented_notebook Streamlit_app no_reader (scripted [''Overview'', ''Sets x''])
     (Notebook scenario) [] =
   create_documented_notebook Streamlit_app no_reader (scripted [''Overview'', ''Sets x''])
     (Notebook (map (\<lambda>n. n\<lparr>metadata := [], outputs := None, execution_count := None\<rparr>) scenario)) []
   \<and> fst (create_documented_notebook Streamlit_app no_reader (scripted [''Overview'', ''Sets x''])
          (Notebook scenario) []) =
       Inr [new_markdown_cell ''Overview'', new_markdown_cell ''Sets x'', new_code_cell ''x=1'',
            new_markdown_cell ''note'']
   \<and> list_all (\<lambda>n. metadata n = [] \<and> (outputs n = None \<or> outputs n = Some [])
                  \<and> (execution_count n = None \<or> execution_count n = Some None))
        [new_markdown_cell ''Overview'', new_markdown_cell ''Sets x'', new_code_cell ''x=1'',
            new_markdown_cell ''note'' :: (string, string) notebook_node]"
proof -
  let ?run = "create_documented_notebook Streamlit_app no_reader (scripted [''Overview'', ''Sets x''])
     (Notebook scenario) []"
  let ?out = "[new_markdown_cell ''Overview'', new_markdown_cell ''Sets x'', new_code_cell ''x=1'',
            new_markdown_cell ''note'' :: (string, string) notebook_node]"
  have k: "map (\<lambda>n. (cell_type n, source n)) scenario =
           map (\<lambda>n. (cell_type n, source n))
             (map (\<lambda>n. n\<lparr>metadata := [], outputs := None, execution_count := None\<rparr>) scenario)"
    by (simp add: scenario_def)
  have f: "fst ?run = Inr ?out" by (simp add: run_defs)
  then have r: "?run = (Inr ?out, snd ?run)" by (simp add: prod_eq_iff)
  note T = C10_only_kind_and_source[where nb = scenario
      and nb' = "map (\<lambda>n. n\<lparr>metadata := [], outputs := None, execution_count := None\<rparr>) scenario"
      and read = no_reader and client = "scripted [''Overview'', ''Sets x'']" and sent = "[]"
      and m = Streamlit_app and src = "Notebook scenario" and out = ?out and sent' = "snd ?run"]
  from T k have 1: "?run = create_documented_notebook Streamlit_app no_reader (scripted [''Overview'', ''Sets x''])
     (Notebook (map (\<lambda>n. n\<lparr>metadata := [], outputs := None, execution_count := None\<rparr>) scenario)) []"
    by blast
  from T r have "\<forall>n \<in> set ?out. (n = new_markdown_cell (source n) \<or> n = new_code_cell (source n))
             \<and> metadata n = []
             \<and> (outputs n = None \<or> outputs n = Some [])
             \<and> (execution_count n = None \<or> execution_count n = Some None)"
    by blast
  then have 2: "list_all (\<lambda>n. metadata n = [] \<and> (outputs n = None \<or> outputs n = Some [])
                  \<and> (execution_count n = None \<or> execution_count n = Some None)) ?out"
    unfolding list_all_iff by blast
  from 1 f 2 show ?thesis by blast
qed

end
